theory Spec2Isabelle
  imports Complex_Main
begin

section \<open>Dates and time zones\<close>

text \<open>
  A JavaScript \<^verbatim>\<open>Date\<close> is a number of milliseconds since 1970-01-01T00:00Z; it is
  modelled as an \<open>int\<close>. \<^verbatim>\<open>getDay\<close>, \<^verbatim>\<open>getFullYear\<close>, \<^verbatim>\<open>getDate\<close> and \<^verbatim>\<open>setDate\<close> work
  on the local time of the server.
\<close>

definition msPerDay :: int where
  "msPerDay = 1000 * 60 * 60 * 24"

text \<open>
  The time zone of the server, as the host gives it to \<^verbatim>\<open>Date\<close>: the offset (local
  time minus UTC, in milliseconds) in force at first, and the later changes of offset
  in ascending order, each with the UTC instant from which the new offset holds.
\<close>

datatype zona = Zona int "(int \<times> int) list"

text \<open>The offset in force at the UTC instant \<open>t\<close>.\<close>

fun desfaseEn :: "int \<Rightarrow> (int \<times> int) list \<Rightarrow> int \<Rightarrow> int" where
  "desfaseEn a [] t = a"
| "desfaseEn a ((cambio, b) # cs) t = (if t < cambio then a else desfaseEn b cs t)"

fun desfaseUTC :: "zona \<Rightarrow> int \<Rightarrow> int" where
  "desfaseUTC (Zona a cs) t = desfaseEn a cs t"

text \<open>
  The offset by which the local time value \<open>l\<close> is read. A local time that a change
  of offset skips or repeats is read with the offset before the change, as
  ECMAScript prescribes.
\<close>

fun desfaseDe :: "int \<Rightarrow> (int \<times> int) list \<Rightarrow> int \<Rightarrow> int" where
  "desfaseDe a [] l = a"
| "desfaseDe a ((cambio, b) # cs) l = (if l < cambio + max a b then a else desfaseDe b cs l)"

fun desfaseLocal :: "zona \<Rightarrow> int \<Rightarrow> int" where
  "desfaseLocal (Zona a cs) l = desfaseDe a cs l"

text \<open>The offsets of a zone.\<close>

fun desfases :: "zona \<Rightarrow> int list" where
  "desfases (Zona a cs) = a # map snd cs"

text \<open>The abstract operations \<^verbatim>\<open>LocalTime\<close> and \<^verbatim>\<open>UTC\<close> of ECMAScript.\<close>

definition localTime :: "zona \<Rightarrow> int \<Rightarrow> int" where
  "localTime z t = t + desfaseUTC z t"

definition utc :: "zona \<Rightarrow> int \<Rightarrow> int" where
  "utc z l = l - desfaseLocal z l"

text \<open>\<^verbatim>\<open>date.getDay()\<close>: 0 is Sunday, 6 is Saturday; 1970-01-01 was a Thursday.\<close>

definition getDay :: "zona \<Rightarrow> int \<Rightarrow> int" where
  "getDay z t = (localTime z t div msPerDay + 4) mod 7"

text \<open>
  \<^verbatim>\<open>date.getFullYear()\<close>: the year of the proleptic Gregorian calendar in which the
  local day of \<open>t\<close> falls (computed from the day number in 400-year eras starting
  on 1 March).
\<close>

definition getFullYear :: "zona \<Rightarrow> int \<Rightarrow> int" where
  "getFullYear z t =
     (let d = localTime z t div msPerDay + 719468;
          era = d div 146097;
          doe = d - era * 146097;
          yoe = (doe - doe div 1460 + doe div 36524 - doe div 146096) div 365;
          doy = doe - (365 * yoe + yoe div 4 - yoe div 100);
          mp = (5 * doy + 2) div 153
      in yoe + era * 400 + (if mp < 10 then 0 else 1))"

text \<open>
  \<^verbatim>\<open>date.setDate(date.getDate() + 1)\<close>: the same local time of day on the next local
  calendar day, read back as a UTC instant.
\<close>

definition sumarDia :: "zona \<Rightarrow> int \<Rightarrow> int" where
  "sumarDia z t = utc z (localTime z t + msPerDay)"

section \<open>Day counts of the Vacation model\<close>

text \<open>
  The virtual \<^verbatim>\<open>diasTotales\<close>:
  \<^verbatim>\<open>Math.ceil(diferencia / (1000 * 60 * 60 * 24)) + 1\<close>, with
  \<^verbatim>\<open>diferencia = fin.getTime() - inicio.getTime()\<close>. The quotient is rounded up with
  integer arithmetic; \<open>diasTotales_ceiling\<close> below relates it to the ceiling of the
  real quotient, which the double-precision division of JavaScript agrees with for
  spans shorter than \<open>2 ^ 26\<close> days. Both dates are required paths of the schema, so
  the virtual's early \<^verbatim>\<open>return 0\<close> for a missing date is not reached on a validated
  document.
\<close>

definition diasTotales :: "int \<Rightarrow> int \<Rightarrow> int" where
  "diasTotales inicio fin = - ((- (fin - inicio)) div msPerDay) + 1"

text \<open>
  The virtual \<^verbatim>\<open>diasHabilesCalculados\<close>:
  \<^verbatim>\<open>for (let date = new Date(inicio); date <= fin; date.setDate(date.getDate() + 1))\<close>
  counting the days with \<^verbatim>\<open>dayOfWeek !== 0 && dayOfWeek !== 6\<close>. The next instant is
  \<open>sumarDia z date\<close>. It is later than \<open>date\<close> in every zone whose offsets differ by
  less than a day, and there the \<open>max\<close> is \<open>sumarDia z date\<close> (\<open>sumarDia_avanza\<close>
  and \<open>siguiente_sumarDia\<close> below); the \<open>max\<close> only keeps the recursion well-founded
  for the other values of \<open>zona\<close>.
\<close>

function contarHabiles :: "zona \<Rightarrow> int \<Rightarrow> int \<Rightarrow> int \<Rightarrow> int" where
  "contarHabiles z date fin count =
     (if date \<le> fin
      then contarHabiles z (max (date + 1) (sumarDia z date)) fin
             (if getDay z date \<noteq> 0 \<and> getDay z date \<noteq> 6 then count + 1 else count)
      else count)"
  by pat_completeness auto
termination
  by (relation "measure (\<lambda>(z, date, fin, count). nat (fin - date + 1))") auto

declare contarHabiles.simps [simp del]

definition diasHabilesCalculados :: "zona \<Rightarrow> int \<Rightarrow> int \<Rightarrow> int" where
  "diasHabilesCalculados z inicio fin = contarHabiles z inicio fin 0"

subsection \<open>The day counts in the specification's words\<close>

text \<open>
  The repository has no function for the weekend days of a span; the counts of this
  subsection follow the words of the specification, for which a date is a calendar
  date. The calendar date of a \<^verbatim>\<open>Date\<close> is its UTC day (a date-only ISO 8601 string
  such as \<^verbatim>\<open>"2024-07-15"\<close> is parsed as midnight UTC of that day), numbered from
  1970-01-01; the span of two dates holds every calendar date from the first to the
  last. None of this reads the server's zone.
\<close>

definition diaCalendario :: "int \<Rightarrow> int" where
  "diaCalendario t = t div msPerDay"

text \<open>The weekday of a calendar date: 0 is Sunday, 6 is Saturday.\<close>

definition diaDeSemana :: "int \<Rightarrow> int" where
  "diaDeSemana n = (n + 4) mod 7"

definition esFinDeSemana :: "int \<Rightarrow> bool" where
  "esFinDeSemana n \<longleftrightarrow> diaDeSemana n = 0 \<or> diaDeSemana n = 6"

definition diasDelIntervalo :: "int \<Rightarrow> int \<Rightarrow> int list" where
  "diasDelIntervalo inicio fin = [diaCalendario inicio..diaCalendario fin]"

text \<open>The number of Saturdays and Sundays among the calendar dates of the span.\<close>

definition weekendDaysInSpan :: "int \<Rightarrow> int \<Rightarrow> int" where
  "weekendDaysInSpan inicio fin = int (length (filter esFinDeSemana (diasDelIntervalo inicio fin)))"

text \<open>The number of calendar dates of the span that are neither a Saturday nor a Sunday.\<close>

definition businessDaySpan :: "int \<Rightarrow> int \<Rightarrow> int" where
  "businessDaySpan inicio fin =
     int (length (filter (\<lambda>n. \<not> esFinDeSemana n) (diasDelIntervalo inicio fin)))"

section \<open>Users and contracts\<close>

text \<open>The roles of the User schema: \<^verbatim>\<open>'empleado'\<close>, \<^verbatim>\<open>'admin'\<close>, \<^verbatim>\<open>'rrhh'\<close>.\<close>

datatype rol = Empleado | Admin | RRHH

text \<open>
  An ObjectId is modelled as a natural number. \<open>usuario\<close> is the authenticated
  \<^verbatim>\<open>req.user\<close> that \<^verbatim>\<open>authenticateToken\<close> attaches to the request, and a document of
  the users collection.
\<close>

record usuario =
  uid :: nat
  role :: rol

text \<open>Of the Contract schema only the owner and \<^verbatim>\<open>diasVacaciones\<close> are kept.\<close>

record contrato =
  c_empleado :: nat
  diasVacaciones :: int

text \<open>
  What a request handler reads besides the vacations collection: the users and
  contracts collections, the clock (\<^verbatim>\<open>new Date()\<close>, one reading per request) and the
  server's time zone. \<open>validaFinUpdate\<close> is the outcome of the schema's \<^verbatim>\<open>fechaFin\<close>
  validator when Mongoose runs it as an update validator: there \<^verbatim>\<open>this\<close> is not the
  stored document, so what \<^verbatim>\<open>value > this.fechaInicio\<close> compares with is decided by
  Mongoose and not by this repository.
\<close>

record ctx =
  usuarios :: "usuario list"
  contratos :: "contrato list"
  ahora :: int
  zona :: zona
  validaFinUpdate :: "int \<Rightarrow> bool"

text \<open>\<^verbatim>\<open>User.findById\<close>.\<close>

definition findUser :: "usuario list \<Rightarrow> nat \<Rightarrow> usuario option" where
  "findUser us i = find (\<lambda>u. uid u = i) us"

text \<open>\<^verbatim>\<open>authorizeRoles(...roles)\<close>: \<^verbatim>\<open>roles.includes(req.user.role)\<close>.\<close>

definition authorizeRoles :: "rol list \<Rightarrow> usuario \<Rightarrow> bool" where
  "authorizeRoles roles u \<longleftrightarrow> role u \<in> set roles"

section \<open>The Vacation model\<close>

text \<open>
  The values of the \<^verbatim>\<open>estado\<close> enum: \<^verbatim>\<open>'pendiente'\<close>, \<^verbatim>\<open>'aprobada'\<close>, \<^verbatim>\<open>'rechazada'\<close>,
  \<^verbatim>\<open>'cancelada'\<close>, \<^verbatim>\<open>'en_curso'\<close>, \<^verbatim>\<open>'completada'\<close>.
\<close>

datatype estado_vacacion = Pendiente | Aprobada | Rechazada | Cancelada | EnCurso | Completada

definition parseEstado :: "string \<Rightarrow> estado_vacacion option" where
  "parseEstado s =
     (if s = ''pendiente'' then Some Pendiente
      else if s = ''aprobada'' then Some Aprobada
      else if s = ''rechazada'' then Some Rechazada
      else if s = ''cancelada'' then Some Cancelada
      else if s = ''en_curso'' then Some EnCurso
      else if s = ''completada'' then Some Completada
      else None)"

definition tiposVacacion :: "string list" where
  "tiposVacacion = [''vacaciones'', ''permiso_personal'', ''licencia_medica'', ''permiso_matrimonio'',
     ''permiso_maternidad'', ''permiso_paternidad'', ''licencia_sin_goce'', ''otro'']"

text \<open>
  A document of the vacations collection. \<open>vid\<close> is \<^verbatim>\<open>_id\<close>. The day counts hold a
  JavaScript number or \<^verbatim>\<open>undefined\<close>; the values the model derives are integers and
  the counts are modelled as \<open>int option\<close> (a fractional count supplied by a caller is
  not represented). A string is a list of characters, one per code point. The
  paths \<^verbatim>\<open>documentoSoporte\<close>, \<^verbatim>\<open>afectaSalario\<close>, \<^verbatim>\<open>fechaSolicitud\<close> and the timestamps
  are read by no handler and are left out.
\<close>

record vacation =
  vid :: nat
  empleado :: nat
  fechaInicio :: int
  fechaFin :: int
  tipoVacacion :: string
  estado :: estado_vacacion
  motivo :: string
  observaciones :: "string option"
  aprobadoPor :: "nat option"
  fechaAprobacion :: "int option"
  motivoRechazo :: "string option"
  diasSolicitados :: "int option"
  diasHabiles :: "int option"
  reemplazo :: "nat option"
  instruccionesReemplazo :: "string option"
  urgente :: bool
  anoVacacional :: int
  creadoPor :: nat
  modificadoPor :: "nat option"

text \<open>
  Whitespace removed by \<^verbatim>\<open>trim\<close> (the sanitizer of the routes and the schema option):
  the whitespace characters that a \<open>char\<close> can hold, the no-break space U+00A0 among
  them.
\<close>

definition esBlanco :: "char \<Rightarrow> bool" where
  "esBlanco c \<longleftrightarrow>
     c \<in> set [CHR '' '', CHR 0x09, CHR 0x0A, CHR 0x0B, CHR 0x0C, CHR 0x0D, CHR 0xA0]"

definition trim :: "string \<Rightarrow> string" where
  "trim s = rev (dropWhile esBlanco (rev (dropWhile esBlanco s)))"

definition largoMax :: "nat \<Rightarrow> string option \<Rightarrow> bool" where
  "largoMax n campo = (case campo of None \<Rightarrow> True | Some s \<Rightarrow> length s \<le> n)"

text \<open>
  The validators of the schema, as \<^verbatim>\<open>save\<close> runs them on a document: the custom
  validator of \<^verbatim>\<open>fechaFin\<close> (\<^verbatim>\<open>value > this.fechaInicio\<close>), the enum of
  \<^verbatim>\<open>tipoVacacion\<close>, the required and \<^verbatim>\<open>maxlength\<close> rules of the strings, and
  \<^verbatim>\<open>min\<close>/\<^verbatim>\<open>max\<close> of the day counts (\<^verbatim>\<open>min: 0.5\<close> is written \<open>1 \<le> 2 * n\<close>).
  Validators do not run on an undefined path. The enum of \<^verbatim>\<open>estado\<close> holds by type.
\<close>

definition validar :: "vacation \<Rightarrow> bool" where
  "validar v \<longleftrightarrow>
     fechaFin v > fechaInicio v \<and>
     tipoVacacion v \<in> set tiposVacacion \<and>
     motivo v \<noteq> [] \<and> length (motivo v) \<le> 500 \<and>
     largoMax 1000 (observaciones v) \<and>
     largoMax 500 (motivoRechazo v) \<and>
     (case diasSolicitados v of None \<Rightarrow> True | Some n \<Rightarrow> 1 \<le> 2 * n \<and> n \<le> 365) \<and>
     (case diasHabiles v of None \<Rightarrow> True | Some n \<Rightarrow> 0 \<le> n) \<and>
     largoMax 1000 (instruccionesReemplazo v)"

text \<open>\<^verbatim>\<open>!x\<close> on a day count: \<^verbatim>\<open>undefined\<close> and \<open>0\<close> are falsy.\<close>

definition falsy :: "int option \<Rightarrow> bool" where
  "falsy x \<longleftrightarrow> (case x of None \<Rightarrow> True | Some n \<Rightarrow> n = 0)"

text \<open>The first \<^verbatim>\<open>pre('save')\<close> middleware: the day counts and the approval date.\<close>

definition preSaveDias :: "ctx \<Rightarrow> vacation \<Rightarrow> vacation" where
  "preSaveDias c v =
     (let v1 = (if falsy (diasSolicitados v)
                then v\<lparr>diasSolicitados := Some (diasTotales (fechaInicio v) (fechaFin v))\<rparr> else v);
          v2 = (if falsy (diasHabiles v1)
                then v1\<lparr>diasHabiles := Some (diasHabilesCalculados (zona c) (fechaInicio v1) (fechaFin v1))\<rparr>
                else v1)
      in if estado v2 = Aprobada \<and> fechaAprobacion v2 = None
         then v2\<lparr>fechaAprobacion := Some (ahora c)\<rparr> else v2)"

text \<open>
  The query of the second \<^verbatim>\<open>pre('save')\<close> middleware:
  \<^verbatim>\<open>findOne({empleado, _id: {$ne: this._id}, estado: {$in: [...]}, fechaInicio: {$lte: this.fechaFin}, fechaFin: {$gte: this.fechaInicio}})\<close>.
\<close>

definition solapeModelo :: "vacation \<Rightarrow> vacation list \<Rightarrow> vacation option" where
  "solapeModelo v st =
     find (\<lambda>r. empleado r = empleado v \<and> vid r \<noteq> vid v \<and>
               estado r \<in> set [Aprobada, Pendiente, EnCurso] \<and>
               fechaInicio r \<le> fechaFin v \<and> fechaFin r \<ge> fechaInicio v) st"

datatype save_error = ValidationError | FechaEnElPasado | Solapamiento

text \<open>The second \<^verbatim>\<open>pre('save')\<close> middleware; \<open>None\<close> is \<^verbatim>\<open>next()\<close> without an error.\<close>

definition preSaveValidaciones :: "ctx \<Rightarrow> bool \<Rightarrow> vacation \<Rightarrow> vacation list \<Rightarrow> save_error option" where
  "preSaveValidaciones c isNew v st =
     (if isNew \<and> fechaInicio v < ahora c then Some FechaEnElPasado
      else if estado v = Aprobada \<or> estado v = Pendiente
      then (case solapeModelo v st of Some existingVacation \<Rightarrow> Some Solapamiento | None \<Rightarrow> None)
      else None)"

text \<open>Writing a document that is already stored: the document with its \<^verbatim>\<open>_id\<close> is replaced.\<close>

fun reemplazar :: "vacation \<Rightarrow> vacation list \<Rightarrow> vacation list" where
  "reemplazar v [] = []"
| "reemplazar v (r # rs) = (if vid r = vid v then v # rs else r # reemplazar v rs)"

text \<open>
  \<^verbatim>\<open>doc.save()\<close>: Mongoose validates the document, then runs the two middlewares in
  the order of their registration, then writes. An error of any step rejects the
  promise and nothing is written.
\<close>

definition save :: "ctx \<Rightarrow> bool \<Rightarrow> vacation \<Rightarrow> vacation list \<Rightarrow> save_error + vacation \<times> vacation list" where
  "save c isNew v st =
     (if \<not> validar v then Inl ValidationError
      else let v' = preSaveDias c v in
        (case preSaveValidaciones c isNew v' st of
           Some e \<Rightarrow> Inl e
         | None \<Rightarrow> Inr (v', if isNew then st @ [v'] else reemplazar v' st)))"

text \<open>\<^verbatim>\<open>Vacation.findById\<close>.\<close>

definition findById :: "nat \<Rightarrow> vacation list \<Rightarrow> vacation option" where
  "findById i st = find (\<lambda>r. vid r = i) st"

text \<open>The \<^verbatim>\<open>_id\<close> of a new document: an ObjectId no stored document has.\<close>

definition nuevoId :: "vacation list \<Rightarrow> nat" where
  "nuevoId st = Suc (foldr max (map vid st) 0)"

section \<open>The routes of /api/vacations\<close>

text \<open>
  The error responses of the handlers, named after their \<^verbatim>\<open>error\<close> field:
  \<open>DatosInvalidos\<close> (400, the request validators), \<open>EmpleadoNoEncontrado\<close>,
  \<open>ReemplazoNoEncontrado\<close> and \<open>VacacionNoEncontrada\<close> (404), \<open>FechasInvalidas\<close>
  (400), \<open>FechasEnConflicto\<close> (409), \<open>NoSePuedeModificar\<close> (400), \<open>AccesoDenegado\<close>
  (403), \<open>EstadoInvalido\<close> (400) and \<open>ErrorInterno\<close> (500, the \<^verbatim>\<open>catch\<close> of each
  handler).
\<close>

datatype error =
    DatosInvalidos
  | EmpleadoNoEncontrado
  | ReemplazoNoEncontrado
  | VacacionNoEncontrada
  | FechasInvalidas
  | FechasEnConflicto
  | NoSePuedeModificar
  | AccesoDenegado
  | EstadoInvalido
  | ErrorInterno

fun httpStatus :: "error \<Rightarrow> nat" where
  "httpStatus DatosInvalidos = 400"
| "httpStatus EmpleadoNoEncontrado = 404"
| "httpStatus ReemplazoNoEncontrado = 404"
| "httpStatus VacacionNoEncontrada = 404"
| "httpStatus FechasInvalidas = 400"
| "httpStatus FechasEnConflicto = 409"
| "httpStatus NoSePuedeModificar = 400"
| "httpStatus AccesoDenegado = 403"
| "httpStatus EstadoInvalido = 400"
| "httpStatus ErrorInterno = 500"

text \<open>A date field of a JSON body: absent, not ISO 8601, or a date.\<close>

datatype fecha_json = SinFecha | FechaInvalida | Fecha int

text \<open>
  \<^verbatim>\<open>req.body\<close> of \<^verbatim>\<open>POST /api/vacations\<close>. The handler spreads the whole body into
  the new document, so besides the fields the route validates the body may carry
  any path of the schema.
\<close>

record cuerpo =
  b_empleado :: "nat option"
  b_fechaInicio :: fecha_json
  b_fechaFin :: fecha_json
  b_tipoVacacion :: "string option"
  b_motivo :: "string option"
  b_observaciones :: "string option"
  b_reemplazo :: "nat option"
  b_instruccionesReemplazo :: "string option"
  b_urgente :: "bool option"
  b_estado :: "string option"
  b_diasSolicitados :: "int option"
  b_diasHabiles :: "int option"
  b_anoVacacional :: "int option"
  b_aprobadoPor :: "nat option"
  b_fechaAprobacion :: "int option"
  b_motivoRechazo :: "string option"

text \<open>The express-validator chain of the POST route.\<close>

definition validoCrear :: "cuerpo \<Rightarrow> bool" where
  "validoCrear b \<longleftrightarrow>
     (case b_fechaInicio b of Fecha f \<Rightarrow> True | _ \<Rightarrow> False) \<and>
     (case b_fechaFin b of Fecha f \<Rightarrow> True | _ \<Rightarrow> False) \<and>
     (case b_tipoVacacion b of None \<Rightarrow> False | Some t \<Rightarrow> t \<in> set tiposVacacion) \<and>
     (case b_motivo b of None \<Rightarrow> False | Some m \<Rightarrow> trim m \<noteq> [] \<and> length (trim m) \<le> 500) \<and>
     largoMax 1000 (b_observaciones b) \<and>
     largoMax 1000 (b_instruccionesReemplazo b)"

text \<open>
  The query of the POST handler:
  \<^verbatim>\<open>findOne({empleado: empleadoId, estado: {$in: ['aprobada', 'pendiente', 'en_curso']}, fechaInicio: {$lte: fechaFin}, fechaFin: {$gte: fechaInicio}})\<close>.
\<close>

definition solapeRuta :: "nat \<Rightarrow> int \<Rightarrow> int \<Rightarrow> vacation list \<Rightarrow> vacation option" where
  "solapeRuta empleadoId inicio fin st =
     find (\<lambda>r. empleado r = empleadoId \<and>
               estado r \<in> set [Aprobada, Pendiente, EnCurso] \<and>
               fechaInicio r \<le> fin \<and> fechaFin r \<ge> inicio) st"

text \<open>
  \<^verbatim>\<open>new Vacation({...vacationData, empleado: empleadoId, creadoPor: req.user._id})\<close>
  with the defaults of the schema (\<^verbatim>\<open>estado\<close>: \<^verbatim>\<open>'pendiente'\<close>; \<^verbatim>\<open>urgente\<close>: false;
  \<^verbatim>\<open>anoVacacional\<close>: \<^verbatim>\<open>new Date().getFullYear()\<close>) and its \<^verbatim>\<open>trim\<close> setters. \<open>None\<close>
  stands for a document that the validation of \<^verbatim>\<open>save\<close> rejects because a required
  path is missing or \<^verbatim>\<open>estado\<close> is not a value of the enum.
\<close>

definition construir :: "ctx \<Rightarrow> nat \<Rightarrow> nat \<Rightarrow> usuario \<Rightarrow> cuerpo \<Rightarrow> int \<Rightarrow> int \<Rightarrow> vacation option" where
  "construir c i empleadoId u b inicio fin =
     (case b_tipoVacacion b of None \<Rightarrow> None | Some tipo \<Rightarrow>
      (case b_motivo b of None \<Rightarrow> None | Some mot \<Rightarrow>
       (case (case b_estado b of None \<Rightarrow> Some Pendiente | Some s \<Rightarrow> parseEstado s) of
          None \<Rightarrow> None
        | Some est \<Rightarrow> Some
           \<lparr> vid = i, empleado = empleadoId, fechaInicio = inicio, fechaFin = fin,
             tipoVacacion = tipo, estado = est, motivo = trim mot,
             observaciones = map_option trim (b_observaciones b),
             aprobadoPor = b_aprobadoPor b, fechaAprobacion = b_fechaAprobacion b,
             motivoRechazo = map_option trim (b_motivoRechazo b),
             diasSolicitados = b_diasSolicitados b, diasHabiles = b_diasHabiles b,
             reemplazo = b_reemplazo b,
             instruccionesReemplazo = map_option trim (b_instruccionesReemplazo b),
             urgente = (case b_urgente b of None \<Rightarrow> False | Some x \<Rightarrow> x),
             anoVacacional = (case b_anoVacacional b of None \<Rightarrow> getFullYear (zona c) (ahora c)
                                                      | Some y \<Rightarrow> y),
             creadoPor = uid u, modificadoPor = None \<rparr>)))"

text \<open>\<^verbatim>\<open>if (vacationData.reemplazo) { ... User.findById ... }\<close>\<close>

definition reemplazoFalta :: "ctx \<Rightarrow> nat option \<Rightarrow> bool" where
  "reemplazoFalta c r = (case r of None \<Rightarrow> False | Some i \<Rightarrow> findUser (usuarios c) i = None)"

text \<open>
  \<^verbatim>\<open>req.user.role === 'empleado' ? req.user._id : (vacationData.empleado || req.user._id)\<close>
\<close>

definition empleadoDe :: "usuario \<Rightarrow> cuerpo \<Rightarrow> nat" where
  "empleadoDe u b =
     (if role u = Empleado then uid u else (case b_empleado b of None \<Rightarrow> uid u | Some e \<Rightarrow> e))"

text \<open>
  \<^verbatim>\<open>POST /api/vacations\<close>. The result is the response and the collection after the
  request.
\<close>

definition post_vacations ::
  "ctx \<Rightarrow> usuario \<Rightarrow> cuerpo \<Rightarrow> vacation list \<Rightarrow> (error + vacation) \<times> vacation list" where
  "post_vacations c u b st =
     (if \<not> validoCrear b then (Inl DatosInvalidos, st)
      else
        let empleadoId = empleadoDe u b in
        if findUser (usuarios c) empleadoId = None then (Inl EmpleadoNoEncontrado, st)
        else if reemplazoFalta c (b_reemplazo b) then (Inl ReemplazoNoEncontrado, st)
        else
          (case b_fechaInicio b of
             Fecha inicio \<Rightarrow>
               (case b_fechaFin b of
                  Fecha fin \<Rightarrow>
                    if fin \<le> inicio then (Inl FechasInvalidas, st)
                    else if solapeRuta empleadoId inicio fin st \<noteq> None then (Inl FechasEnConflicto, st)
                    else
                      (case construir c (nuevoId st) empleadoId u b inicio fin of
                         None \<Rightarrow> (Inl ErrorInterno, st)
                       | Some vacation \<Rightarrow>
                           (case save c True vacation st of
                              Inl e \<Rightarrow> (Inl ErrorInterno, st)
                            | Inr (v, st') \<Rightarrow> (Inr v, st')))
                | _ \<Rightarrow> (Inl DatosInvalidos, st))
           | _ \<Rightarrow> (Inl DatosInvalidos, st)))"

text \<open>\<^verbatim>\<open>req.body\<close> of \<^verbatim>\<open>PUT /api/vacations/:id\<close>, spread into the update as it is.\<close>

record parche =
  p_fechaInicio :: fecha_json
  p_fechaFin :: fecha_json
  p_tipoVacacion :: "string option"
  p_motivo :: "string option"
  p_observaciones :: "string option"
  p_reemplazo :: "nat option"
  p_instruccionesReemplazo :: "string option"
  p_urgente :: "bool option"
  p_empleado :: "nat option"
  p_estado :: "string option"
  p_diasSolicitados :: "int option"
  p_diasHabiles :: "int option"
  p_anoVacacional :: "int option"

text \<open>The express-validator chain of the PUT route: every field is optional.\<close>

definition validoActualizar :: "parche \<Rightarrow> bool" where
  "validoActualizar p \<longleftrightarrow>
     p_fechaInicio p \<noteq> FechaInvalida \<and>
     p_fechaFin p \<noteq> FechaInvalida \<and>
     (case p_tipoVacacion p of None \<Rightarrow> True | Some t \<Rightarrow> t \<in> set tiposVacacion) \<and>
     (case p_motivo p of None \<Rightarrow> True | Some m \<Rightarrow> trim m \<noteq> [] \<and> length (trim m) \<le> 500) \<and>
     largoMax 1000 (p_observaciones p) \<and>
     largoMax 1000 (p_instruccionesReemplazo p)"

text \<open>
  \<^verbatim>\<open>runValidators: true\<close>: the validators of the paths the update sets, where the
  route's chain has not already checked them.
\<close>

definition validarUpdate :: "ctx \<Rightarrow> parche \<Rightarrow> bool" where
  "validarUpdate c p \<longleftrightarrow>
     (case p_fechaFin p of Fecha f \<Rightarrow> validaFinUpdate c f | _ \<Rightarrow> True) \<and>
     (case p_estado p of None \<Rightarrow> True | Some s \<Rightarrow> parseEstado s \<noteq> None) \<and>
     (case p_diasSolicitados p of None \<Rightarrow> True | Some n \<Rightarrow> 1 \<le> 2 * n \<and> n \<le> 365) \<and>
     (case p_diasHabiles p of None \<Rightarrow> True | Some n \<Rightarrow> 0 \<le> n)"

definition opcion :: "'a option \<Rightarrow> 'a \<Rightarrow> 'a" where
  "opcion nuevo actual = (case nuevo of None \<Rightarrow> actual | Some x \<Rightarrow> x)"

definition opcionFecha :: "fecha_json \<Rightarrow> int \<Rightarrow> int" where
  "opcionFecha nuevo actual = (case nuevo of Fecha f \<Rightarrow> f | _ \<Rightarrow> actual)"

definition opcionCampo :: "'a option \<Rightarrow> 'a option \<Rightarrow> 'a option" where
  "opcionCampo nuevo actual = (case nuevo of None \<Rightarrow> actual | Some x \<Rightarrow> Some x)"

text \<open>The update \<^verbatim>\<open>{ ...req.body, modificadoPor: req.user._id }\<close> applied to a document.\<close>

definition aplicar :: "usuario \<Rightarrow> parche \<Rightarrow> vacation \<Rightarrow> vacation" where
  "aplicar u p v =
     v\<lparr> empleado := opcion (p_empleado p) (empleado v),
        fechaInicio := opcionFecha (p_fechaInicio p) (fechaInicio v),
        fechaFin := opcionFecha (p_fechaFin p) (fechaFin v),
        tipoVacacion := opcion (p_tipoVacacion p) (tipoVacacion v),
        estado := opcion (Option.bind (p_estado p) parseEstado) (estado v),
        motivo := opcion (map_option trim (p_motivo p)) (motivo v),
        observaciones := opcionCampo (map_option trim (p_observaciones p)) (observaciones v),
        diasSolicitados := opcionCampo (p_diasSolicitados p) (diasSolicitados v),
        diasHabiles := opcionCampo (p_diasHabiles p) (diasHabiles v),
        reemplazo := opcionCampo (p_reemplazo p) (reemplazo v),
        instruccionesReemplazo :=
          opcionCampo (map_option trim (p_instruccionesReemplazo p)) (instruccionesReemplazo v),
        urgente := opcion (p_urgente p) (urgente v),
        anoVacacional := opcion (p_anoVacacional p) (anoVacacional v),
        modificadoPor := Some (uid u) \<rparr>"

text \<open>
  \<^verbatim>\<open>PUT /api/vacations/:id\<close>. \<^verbatim>\<open>findByIdAndUpdate\<close> writes the update without running
  the \<^verbatim>\<open>pre('save')\<close> middlewares.
\<close>

definition put_vacation ::
  "ctx \<Rightarrow> usuario \<Rightarrow> nat \<Rightarrow> parche \<Rightarrow> vacation list \<Rightarrow> (error + vacation) \<times> vacation list" where
  "put_vacation c u i p st =
     (if \<not> validoActualizar p then (Inl DatosInvalidos, st)
      else
        (case findById i st of
           None \<Rightarrow> (Inl VacacionNoEncontrada, st)
         | Some vacation \<Rightarrow>
             if estado vacation \<noteq> Pendiente then (Inl NoSePuedeModificar, st)
             else if role u = Empleado \<and> empleado vacation \<noteq> uid u then (Inl AccesoDenegado, st)
             else if reemplazoFalta c (p_reemplazo p) then (Inl ReemplazoNoEncontrado, st)
             else if \<not> validarUpdate c p then (Inl ErrorInterno, st)
             else
               let updatedVacation = aplicar u p vacation
               in (Inr updatedVacation, reemplazar updatedVacation st)))"

text \<open>
  \<^verbatim>\<open>POST /api/vacations/:id/approve\<close>, behind \<^verbatim>\<open>authorizeRoles('admin', 'rrhh')\<close>.
\<close>

definition post_approve ::
  "ctx \<Rightarrow> usuario \<Rightarrow> nat \<Rightarrow> vacation list \<Rightarrow> (error + vacation) \<times> vacation list" where
  "post_approve c u i st =
     (if \<not> authorizeRoles [Admin, RRHH] u then (Inl AccesoDenegado, st)
      else
        (case findById i st of
           None \<Rightarrow> (Inl VacacionNoEncontrada, st)
         | Some vacation \<Rightarrow>
             if estado vacation \<noteq> Pendiente then (Inl EstadoInvalido, st)
             else
               (case save c False
                       (vacation\<lparr> estado := Aprobada, aprobadoPor := Some (uid u),
                                  fechaAprobacion := Some (ahora c),
                                  modificadoPor := Some (uid u) \<rparr>) st of
                  Inl e \<Rightarrow> (Inl ErrorInterno, st)
                | Inr (v, st') \<Rightarrow> (Inr v, st'))))"

text \<open>
  The chain of the reject route:
  \<^verbatim>\<open>body('motivoRechazo').trim().notEmpty().isLength({ max: 500 })\<close>.
\<close>

definition validoRechazo :: "string option \<Rightarrow> bool" where
  "validoRechazo motivoRechazo' \<longleftrightarrow>
     (case motivoRechazo' of None \<Rightarrow> False | Some s \<Rightarrow> trim s \<noteq> [] \<and> length (trim s) \<le> 500)"

text \<open>
  \<^verbatim>\<open>POST /api/vacations/:id/reject\<close>, behind \<^verbatim>\<open>authorizeRoles('admin', 'rrhh')\<close>; the
  fourth argument is \<^verbatim>\<open>req.body.motivoRechazo\<close>, which the handler reads after the
  sanitizer has trimmed it.
\<close>

definition post_reject ::
  "ctx \<Rightarrow> usuario \<Rightarrow> nat \<Rightarrow> string option \<Rightarrow> vacation list \<Rightarrow> (error + vacation) \<times> vacation list" where
  "post_reject c u i motivoRechazo' st =
     (if \<not> authorizeRoles [Admin, RRHH] u then (Inl AccesoDenegado, st)
      else if \<not> validoRechazo motivoRechazo' then (Inl DatosInvalidos, st)
      else
        (case findById i st of
           None \<Rightarrow> (Inl VacacionNoEncontrada, st)
         | Some vacation \<Rightarrow>
             if estado vacation \<noteq> Pendiente then (Inl EstadoInvalido, st)
             else
               (case save c False
                       (vacation\<lparr> estado := Rechazada,
                                  motivoRechazo := map_option trim motivoRechazo',
                                  aprobadoPor := Some (uid u),
                                  fechaAprobacion := Some (ahora c),
                                  modificadoPor := Some (uid u) \<rparr>) st of
                  Inl e \<Rightarrow> (Inl ErrorInterno, st)
                | Inr (v, st') \<Rightarrow> (Inr v, st'))))"

text \<open>\<^verbatim>\<open>POST /api/vacations/:id/cancel\<close>.\<close>

definition post_cancel ::
  "ctx \<Rightarrow> usuario \<Rightarrow> nat \<Rightarrow> vacation list \<Rightarrow> (error + vacation) \<times> vacation list" where
  "post_cancel c u i st =
     (case findById i st of
        None \<Rightarrow> (Inl VacacionNoEncontrada, st)
      | Some vacation \<Rightarrow>
          if role u = Empleado \<and> empleado vacation \<noteq> uid u then (Inl AccesoDenegado, st)
          else if estado vacation \<notin> set [Pendiente, Aprobada] then (Inl EstadoInvalido, st)
          else
            (case save c False (vacation\<lparr> estado := Cancelada, modificadoPor := Some (uid u) \<rparr>) st of
               Inl e \<Rightarrow> (Inl ErrorInterno, st)
             | Inr (v, st') \<Rightarrow> (Inr v, st')))"

text \<open>
  The body of the balance response. A sum that meets an undefined \<^verbatim>\<open>diasHabiles\<close> is
  \<^verbatim>\<open>NaN\<close> in JavaScript; \<open>None\<close> stands for it.
\<close>

record balance =
  anio :: int
  diasDisponibles :: int
  diasUtilizados :: "int option"
  diasRestantes :: "int option"
  vacaciones :: "vacation list"

text \<open>\<^verbatim>\<open>total + vacation.diasHabiles\<close>\<close>

definition sumar :: "int option \<Rightarrow> vacation \<Rightarrow> int option" where
  "sumar acc v =
     (case acc of None \<Rightarrow> None
      | Some t \<Rightarrow> (case diasHabiles v of None \<Rightarrow> None | Some d \<Rightarrow> Some (t + d)))"

text \<open>
  \<^verbatim>\<open>GET /api/vacations/employee/:id/balance\<close>; \<open>year\<close> is \<^verbatim>\<open>req.query.year\<close>. The
  handler reads no contract: \<^verbatim>\<open>const diasDisponibles = 22;\<close>, under a comment saying
  that the value is a default and should be obtained from the contract.
\<close>

definition get_balance ::
  "ctx \<Rightarrow> usuario \<Rightarrow> nat \<Rightarrow> int option \<Rightarrow> vacation list \<Rightarrow> error + balance" where
  "get_balance c u empleadoId year st =
     (let year' = (case year of None \<Rightarrow> getFullYear (zona c) (ahora c) | Some y \<Rightarrow> y) in
      if role u = Empleado \<and> empleadoId \<noteq> uid u then Inl AccesoDenegado
      else if findUser (usuarios c) empleadoId = None then Inl EmpleadoNoEncontrado
      else
        let vacaciones' = filter (\<lambda>v. empleado v = empleadoId \<and> anoVacacional v = year' \<and>
                                       estado v \<in> set [Aprobada, EnCurso, Completada]) st;
            diasUtilizados' = foldl sumar (Some 0) vacaciones';
            diasDisponibles' = 22
        in Inr \<lparr> anio = year', diasDisponibles = diasDisponibles',
                 diasUtilizados = diasUtilizados',
                 diasRestantes = map_option (\<lambda>d. diasDisponibles' - d) diasUtilizados',
                 vacaciones = vacaciones' \<rparr>)"

section \<open>The overlap invariant\<close>

text \<open>
  Two records conflict when they belong to the same employee, both have a status in
  {approved, pending, in progress} and their inclusive intervals share a point.
\<close>

definition activa :: "vacation \<Rightarrow> bool" where
  "activa v \<longleftrightarrow> estado v \<in> set [Aprobada, Pendiente, EnCurso]"

definition intervalsOverlap :: "int \<Rightarrow> int \<Rightarrow> int \<Rightarrow> int \<Rightarrow> bool" where
  "intervalsOverlap aStart aEnd bStart bEnd \<longleftrightarrow> aStart \<le> bEnd \<and> bStart \<le> aEnd"

definition conflicto :: "vacation \<Rightarrow> vacation \<Rightarrow> bool" where
  "conflicto a b \<longleftrightarrow>
     empleado a = empleado b \<and> activa a \<and> activa b \<and>
     intervalsOverlap (fechaInicio a) (fechaFin a) (fechaInicio b) (fechaFin b)"

text \<open>No two records of the collection conflict.\<close>

fun sinSolapes :: "vacation list \<Rightarrow> bool" where
  "sinSolapes [] = True"
| "sinSolapes (v # vs) = (list_all (\<lambda>r. \<not> conflicto v r) vs \<and> sinSolapes vs)"

section \<open>Scenarios\<close>

text \<open>
  Midnight UTC of a day of July 2024 (2024-07-01 is day 19905 after 1970-01-01), a
  server on UTC whose clock reads 2024-07-01, an employee (1), a second employee
  (3), an HR user (2), and the request body of the API documentation.
\<close>

definition diaUTC :: "int \<Rightarrow> int" where
  "diaUTC n = n * msPerDay"

definition julio2024 :: "int \<Rightarrow> int" where
  "julio2024 dia = diaUTC (19904 + dia)"

text \<open>
  Europe/Madrid around the end of summer time in 2024: UTC+2 until 2024-10-27T01:00Z
  (2024-10-27 is day 20023), UTC+1 from then on.
\<close>

definition madrid :: zona where
  "madrid = Zona 7200000 [(diaUTC 20023 + 3600000, 3600000)]"

definition empleado1 :: usuario where
  "empleado1 = \<lparr> uid = 1, role = Empleado \<rparr>"

definition rrhh2 :: usuario where
  "rrhh2 = \<lparr> uid = 2, role = RRHH \<rparr>"

definition empleado3 :: usuario where
  "empleado3 = \<lparr> uid = 3, role = Empleado \<rparr>"

definition servidor :: ctx where
  "servidor = \<lparr> usuarios = [empleado1, rrhh2, empleado3],
                 contratos = [\<lparr> c_empleado = 1, diasVacaciones = 30 \<rparr>],
                 ahora = julio2024 1, zona = Zona 0 [], validaFinUpdate = (\<lambda>f. False) \<rparr>"

definition solicitud :: "int \<Rightarrow> int \<Rightarrow> cuerpo" where
  "solicitud inicio fin =
     \<lparr> b_empleado = None, b_fechaInicio = Fecha inicio, b_fechaFin = Fecha fin,
       b_tipoVacacion = Some ''vacaciones'', b_motivo = Some ''Vacaciones de verano'',
       b_observaciones = None, b_reemplazo = None, b_instruccionesReemplazo = None,
       b_urgente = None, b_estado = None, b_diasSolicitados = None, b_diasHabiles = None,
       b_anoVacacional = None, b_aprobadoPor = None, b_fechaAprobacion = None,
       b_motivoRechazo = None \<rparr>"

definition sinCambios :: parche where
  "sinCambios =
     \<lparr> p_fechaInicio = SinFecha, p_fechaFin = SinFecha, p_tipoVacacion = None, p_motivo = None,
       p_observaciones = None, p_reemplazo = None, p_instruccionesReemplazo = None,
       p_urgente = None, p_empleado = None, p_estado = None, p_diasSolicitados = None,
       p_diasHabiles = None, p_anoVacacional = None \<rparr>"

text \<open>The record a successful request of \<open>empleado1\<close> for the given days of July 2024 stores.\<close>

definition registro :: "nat \<Rightarrow> int \<Rightarrow> int \<Rightarrow> estado_vacacion \<Rightarrow> int \<Rightarrow> int \<Rightarrow> vacation" where
  "registro i desde hasta est dias habiles =
     \<lparr> vid = i, empleado = 1, fechaInicio = julio2024 desde, fechaFin = julio2024 hasta,
       tipoVacacion = ''vacaciones'', estado = est, motivo = ''Vacaciones de verano'',
       observaciones = None, aprobadoPor = None, fechaAprobacion = None, motivoRechazo = None,
       diasSolicitados = Some dias, diasHabiles = Some habiles, reemplazo = None,
       instruccionesReemplazo = None, urgente = False, anoVacacional = 2024, creadoPor = 1,
       modificadoPor = None \<rparr>"

text \<open>
  The collection after \<open>empleado1\<close> has requested 2024-07-10 to 2024-07-20, then
  2024-07-22 to 2024-07-25, and has then moved the start of the second request to
  2024-07-15 with a PUT.
\<close>

definition solapadas :: "vacation list" where
  "solapadas =
     [registro 1 10 20 Pendiente 11 8,
      (registro 2 22 25 Pendiente 4 4)\<lparr> fechaInicio := julio2024 15, modificadoPor := Some 1 \<rparr>]"

section \<open>Properties of the day counts\<close>

lemma diasTotales_ceiling:
  "diasTotales inicio fin = \<lceil>real_of_int (fin - inicio) / real_of_int msPerDay\<rceil> + 1"
  unfolding diasTotales_def
  using ceiling_divide_eq_div [of "fin - inicio" msPerDay, where ?'a = real]
  by (simp del: of_int_diff)

lemma sumarDia_fija: "sumarDia (Zona k []) t = t + msPerDay"
  by (simp add: sumarDia_def utc_def localTime_def)

lemma desfaseEn_desfases: "desfaseEn a cs t \<in> set (a # map snd cs)"
  by (induction a cs t rule: desfaseEn.induct) auto

lemma desfaseDe_desfases: "desfaseDe a cs l \<in> set (a # map snd cs)"
  by (induction a cs l rule: desfaseDe.induct) auto

lemma sumarDia_avanza:
  assumes "\<forall>x\<in>set (desfases z). \<forall>y\<in>set (desfases z). x - y < msPerDay"
  shows "t < sumarDia z t"
proof (cases z)
  case (Zona a cs)
  let ?l = "localTime z t + msPerDay"
  have "desfaseUTC z t \<in> set (desfases z)" and "desfaseLocal z ?l \<in> set (desfases z)"
    using desfaseEn_desfases [of a cs] desfaseDe_desfases [of a cs] by (simp_all add: Zona)
  with assms have "desfaseLocal z ?l - desfaseUTC z t < msPerDay"
    by blast
  then show ?thesis
    by (simp add: sumarDia_def utc_def localTime_def)
qed

lemma siguiente_sumarDia:
  assumes "\<forall>x\<in>set (desfases z). \<forall>y\<in>set (desfases z). x - y < msPerDay"
  shows "max (t + 1) (sumarDia z t) = sumarDia z t"
  using sumarDia_avanza [OF assms, of t] by simp

lemma getDay_fija:
  assumes "0 \<le> k" and "k < msPerDay"
  shows "getDay (Zona k []) (diaUTC a) = diaDeSemana a"
proof -
  have "(a * msPerDay + k) div msPerDay = a"
    using assms by (simp add: div_pos_pos_trivial)
  then show ?thesis
    by (simp add: getDay_def localTime_def diaUTC_def diaDeSemana_def)
qed

lemma diasDelIntervalo_diaUTC: "diasDelIntervalo (diaUTC a) (diaUTC b) = [a..b]"
  by (simp add: diasDelIntervalo_def diaCalendario_def diaUTC_def msPerDay_def)

lemma contarHabiles_fija:
  assumes "0 \<le> k" and "k < msPerDay"
  shows "contarHabiles (Zona k []) (diaUTC a) (diaUTC b) count =
           count + businessDaySpan (diaUTC a) (diaUTC b)"
proof (induction "nat (b - a + 1)" arbitrary: a count)
  case 0
  then have "\<not> diaUTC a \<le> diaUTC b" "[a..b] = []"
    by (simp_all add: diaUTC_def msPerDay_def)
  then show ?case
    by (subst contarHabiles.simps)
       (simp add: businessDaySpan_def diasDelIntervalo_diaUTC)
next
  case (Suc n)
  then have le: "a \<le> b" and n: "n = nat (b - (a + 1) + 1)"
    by simp_all
  have d: "diaUTC a \<le> diaUTC b"
    using le by (simp add: diaUTC_def msPerDay_def)
  have s: "max (diaUTC a + 1) (sumarDia (Zona k []) (diaUTC a)) = diaUTC (a + 1)"
    by (simp add: sumarDia_fija diaUTC_def msPerDay_def algebra_simps)
  have u: "[a..b] = a # [a + 1..b]"
    using le by (rule upto_rec1)
  show ?case
    using Suc.hyps(1) [OF n] d
    by (subst contarHabiles.simps)
       (simp add: s getDay_fija [OF assms] businessDaySpan_def diasDelIntervalo_diaUTC u
          esFinDeSemana_def)
qed

text \<open>
  On a server whose offset is fixed, from UTC up to less than a day ahead of it,
  midnight UTC falls on the same local date and the loop counts the business days of
  the calendar dates; the counts of two calendar dates then add up.
\<close>

lemma dias_totales_zona_fija:
  assumes "0 \<le> k" and "k < msPerDay" and "a < b"
  shows "diasTotales (diaUTC a) (diaUTC b) =
           diasHabilesCalculados (Zona k []) (diaUTC a) (diaUTC b) +
           weekendDaysInSpan (diaUTC a) (diaUTC b)"
proof -
  have "businessDaySpan (diaUTC a) (diaUTC b) + weekendDaysInSpan (diaUTC a) (diaUTC b) =
          int (length [a..b])"
    unfolding businessDaySpan_def weekendDaysInSpan_def diasDelIntervalo_diaUTC
    using sum_length_filter_compl [of esFinDeSemana "[a..b]"] by linarith
  moreover have "diasTotales (diaUTC a) (diaUTC b) = b - a + 1"
  proof -
    have "- (diaUTC b - diaUTC a) = (a - b) * msPerDay"
      by (simp add: diaUTC_def algebra_simps)
    then show ?thesis
      by (simp add: diasTotales_def msPerDay_def)
  qed
  ultimately show ?thesis
    using assms(3) by (simp add: diasHabilesCalculados_def contarHabiles_fija [OF assms(1,2)])
qed

section \<open>Properties of the collection and of the handlers\<close>

lemma nuevoId_fresco: "r \<in> set st \<Longrightarrow> vid r < nuevoId st"
proof -
  have "x \<in> set xs \<Longrightarrow> x \<le> foldr max xs 0" for x :: nat and xs
    by (induction xs) auto
  from this [of "vid r" "map vid st"] show "r \<in> set st \<Longrightarrow> vid r < nuevoId st"
    by (simp add: nuevoId_def less_Suc_eq_le)
qed

lemma find_append_nuevo:
  "\<forall>x\<in>set xs. \<not> P x \<Longrightarrow> find P (xs @ [y]) = (if P y then Some y else None)"
  by (induction xs) auto

lemma findById_nuevo:
  assumes "vid v = nuevoId st"
  shows "findById (vid v) (st @ [v]) = Some v"
proof -
  have "\<forall>x\<in>set st. \<not> vid x = vid v"
    using nuevoId_fresco [of _ st] assms by force
  then show ?thesis
    by (simp add: findById_def find_append_nuevo)
qed

lemma findById_vid: "findById i st = Some r \<Longrightarrow> vid r = i \<and> r \<in> set st"
  by (auto simp: findById_def find_Some_iff)

lemma findById_reemplazar:
  "findById i st = Some r \<Longrightarrow> vid v = i \<Longrightarrow> findById i (reemplazar v st) = Some v"
  by (induction st) (auto simp: findById_def split: if_splits)

lemma preSaveDias_campos [simp]:
  "vid (preSaveDias c v) = vid v"
  "empleado (preSaveDias c v) = empleado v"
  "fechaInicio (preSaveDias c v) = fechaInicio v"
  "fechaFin (preSaveDias c v) = fechaFin v"
  "estado (preSaveDias c v) = estado v"
  "motivoRechazo (preSaveDias c v) = motivoRechazo v"
  "aprobadoPor (preSaveDias c v) = aprobadoPor v"
  "anoVacacional (preSaveDias c v) = anoVacacional v"
  by (simp_all add: preSaveDias_def Let_def)

lemma save_Inr:
  "save c isNew v st = Inr (v', st') \<Longrightarrow>
     validar v \<and> v' = preSaveDias c v \<and> preSaveValidaciones c isNew v' st = None \<and>
     st' = (if isNew then st @ [v'] else reemplazar v' st)"
  by (auto simp: save_def Let_def split: if_splits option.splits)

lemma solapeRuta_None_iff:
  "solapeRuta e inicio fin st = None \<longleftrightarrow>
     \<not> (\<exists>r\<in>set st. empleado r = e \<and> activa r \<and>
           intervalsOverlap (fechaInicio r) (fechaFin r) inicio fin)"
  by (auto simp: solapeRuta_def find_None_iff activa_def intervalsOverlap_def)

lemma post_vacations_Inr:
  assumes "post_vacations c u b st = (Inr v, st')"
  shows "\<exists>inicio fin v0.
           validoCrear b \<and> b_fechaInicio b = Fecha inicio \<and> b_fechaFin b = Fecha fin \<and>
           findUser (usuarios c) (empleadoDe u b) \<noteq> None \<and> \<not> reemplazoFalta c (b_reemplazo b) \<and>
           inicio < fin \<and> solapeRuta (empleadoDe u b) inicio fin st = None \<and>
           construir c (nuevoId st) (empleadoDe u b) u b inicio fin = Some v0 \<and>
           save c True v0 st = Inr (v, st')"
  using assms
  by (auto simp: post_vacations_def Let_def
           split: if_splits fecha_json.splits option.splits sum.splits)

lemma post_vacations_Inl:
  "post_vacations c u b st = (Inl e, st') \<Longrightarrow> st' = st"
  by (auto simp: post_vacations_def Let_def
           split: if_splits fecha_json.splits option.splits sum.splits)


lemma construir_campos:
  assumes "construir c i e u b inicio fin = Some v"
  shows "vid v = i" "empleado v = e" "fechaInicio v = inicio" "fechaFin v = fin"
    "diasSolicitados v = b_diasSolicitados b" "diasHabiles v = b_diasHabiles b"
    "estado v = (case b_estado b of None \<Rightarrow> Pendiente | Some s \<Rightarrow> the (parseEstado s))"
    "anoVacacional v = (case b_anoVacacional b of None \<Rightarrow> getFullYear (zona c) (ahora c) | Some y \<Rightarrow> y)"
  using assms by (auto simp: construir_def split: option.splits)

lemma solapeModelo_preSaveDias [simp]: "solapeModelo (preSaveDias c v) st = solapeModelo v st"
  by (simp add: solapeModelo_def)

lemma validar_campos [simp]:
  "validar (v\<lparr>estado := e\<rparr>) = validar v"
  "validar (v\<lparr>aprobadoPor := a\<rparr>) = validar v"
  "validar (v\<lparr>fechaAprobacion := f\<rparr>) = validar v"
  "validar (v\<lparr>modificadoPor := m\<rparr>) = validar v"
  by (simp_all add: validar_def)

lemma solapeModelo_campos [simp]:
  "solapeModelo (v\<lparr>estado := e\<rparr>) st = solapeModelo v st"
  "solapeModelo (v\<lparr>aprobadoPor := a\<rparr>) st = solapeModelo v st"
  "solapeModelo (v\<lparr>fechaAprobacion := f\<rparr>) st = solapeModelo v st"
  "solapeModelo (v\<lparr>modificadoPor := m\<rparr>) st = solapeModelo v st"
  "solapeModelo (v\<lparr>motivoRechazo := mr\<rparr>) st = solapeModelo v st"
  by (simp_all add: solapeModelo_def)

lemma save_existente:
  "save c False v st = Inr (v', st') \<longleftrightarrow>
     validar v \<and> (estado v = Aprobada \<or> estado v = Pendiente \<longrightarrow> solapeModelo v st = None) \<and>
     v' = preSaveDias c v \<and> st' = reemplazar v' st"
  by (auto simp: save_def Let_def preSaveValidaciones_def split: option.splits)

lemma save_casos:
  "(case save c isNew v st of Inl e \<Rightarrow> (Inl ErrorInterno, st) | Inr (v', st') \<Rightarrow> (Inr v', st')) = (Inr w, st'')
     \<longleftrightarrow> save c isNew v st = Inr (w, st'')"
  by (auto split: sum.splits)

section \<open>The derived fields of a new record\<close>

text \<open>
  A record that the POST handler stores for a body without day counts is appended to
  the collection and found again by its \<^verbatim>\<open>_id\<close>, with \<open>diasSolicitados\<close> and
  \<open>diasHabiles\<close> as the two virtuals compute them; it is pending when the body
  carries no \<^verbatim>\<open>estado\<close>.
\<close>

lemma post_vacations_dias:
  assumes "post_vacations c u b st = (Inr v, st')"
    and "b_diasSolicitados b = None" "b_diasHabiles b = None"
  shows "(b_estado b = None \<longrightarrow> estado v = Pendiente) \<and>
         diasSolicitados v =
           Some (\<lceil>real_of_int (fechaFin v - fechaInicio v) / real_of_int msPerDay\<rceil> + 1) \<and>
         diasHabiles v = Some (diasHabilesCalculados (zona c) (fechaInicio v) (fechaFin v)) \<and>
         b_fechaInicio b = Fecha (fechaInicio v) \<and> b_fechaFin b = Fecha (fechaFin v) \<and>
         st' = st @ [v] \<and> findById (vid v) st' = Some v"
proof -
  from post_vacations_Inr [OF assms(1)] obtain inicio fin v0 where
    i: "b_fechaInicio b = Fecha inicio" and f: "b_fechaFin b = Fecha fin"
    and c0: "construir c (nuevoId st) (empleadoDe u b) u b inicio fin = Some v0"
    and s0: "save c True v0 st = Inr (v, st')"
    by blast
  note k = construir_campos [OF c0]
  from save_Inr [OF s0] have v: "v = preSaveDias c v0" and st': "st' = st @ [v]"
    by simp_all
  have e: "b_estado b = None \<longrightarrow> estado v = Pendiente"
    using k(7) by (simp add: v)
  have ds: "diasSolicitados v = Some (diasTotales inicio fin)"
    using k assms(2,3) by (simp add: v preSaveDias_def Let_def falsy_def)
  have dh: "diasHabiles v = Some (diasHabilesCalculados (zona c) inicio fin)"
    using k assms(2,3) by (simp add: v preSaveDias_def Let_def falsy_def)
  have fi: "fechaInicio v = inicio" "fechaFin v = fin" "vid v = nuevoId st"
    using k by (simp_all add: v)
  have "findById (vid v) (st @ [v]) = Some v"
    using fi(3) by (rule findById_nuevo)
  with e ds dh fi i f st' show ?thesis
    by (simp add: diasTotales_ceiling del: of_int_diff)
qed

text \<open>
  Scenario A, the request for 2024-07-15 to 2024-07-29: 15 requested days, and 11
  business days on a server on UTC. On a server five hours behind UTC midnight UTC is
  the evening before, the loop runs from Sunday the 14th to Sunday the 28th of the
  local calendar, and 10 are stored.
\<close>

lemma escenario_A_utc:
  "post_vacations servidor empleado1 (solicitud (julio2024 15) (julio2024 29)) [] =
     (Inr (registro 1 15 29 Pendiente 15 11), [registro 1 15 29 Pendiente 15 11]) \<and>
   businessDaySpan (julio2024 15) (julio2024 29) = 11"
  by code_simp

lemma escenario_A_oeste:
  "post_vacations (servidor\<lparr> zona := Zona (- 18000000) [] \<rparr>) empleado1
     (solicitud (julio2024 15) (julio2024 29)) [] =
     (Inr (registro 1 15 29 Pendiente 15 10), [registro 1 15 29 Pendiente 15 10])"
  by code_simp

section \<open>Approving twice\<close>

text \<open>
  For a pending record and approvers with the admin or HR role, approve succeeds
  exactly when \<^verbatim>\<open>save\<close> accepts the record (the schema's validators and the overlap
  query of \<^verbatim>\<open>pre('save')\<close>), and is answered \<open>ErrorInterno\<close> with the collection
  unchanged otherwise; after an approve that succeeded, another approve is answered
  \<open>EstadoInvalido\<close> and changes nothing.
\<close>

lemma post_approve_dos_veces:
  assumes "authorizeRoles [Admin, RRHH] u" and "authorizeRoles [Admin, RRHH] u'"
    and "findById i st = Some r" and "estado r = Pendiente"
  shows "((\<exists>v st'. post_approve c u i st = (Inr v, st')) \<longleftrightarrow> validar r \<and> solapeModelo r st = None) \<and>
         (\<not> (validar r \<and> solapeModelo r st = None) \<longrightarrow>
            post_approve c u i st = (Inl ErrorInterno, st)) \<and>
         (\<forall>v st'. post_approve c u i st = (Inr v, st') \<longrightarrow>
            estado v = Aprobada \<and> aprobadoPor v = Some (uid u) \<and> findById i st' = Some v \<and>
            post_approve c' u' i st' = (Inl EstadoInvalido, st'))"
proof -
  let ?w = "r\<lparr> estado := Aprobada, aprobadoPor := Some (uid u),
               fechaAprobacion := Some (ahora c), modificadoPor := Some (uid u) \<rparr>"
  have eq: "post_approve c u i st = (Inr v, st') \<longleftrightarrow> save c False ?w st = Inr (v, st')" for v st'
    using assms(1,3,4) by (simp add: post_approve_def save_casos)
  have a: "(\<exists>v st'. post_approve c u i st = (Inr v, st')) \<longleftrightarrow> validar r \<and> solapeModelo r st = None"
    unfolding eq by (simp add: save_existente)
  have b: "estado v = Aprobada \<and> aprobadoPor v = Some (uid u) \<and> findById i st' = Some v \<and>
           post_approve c' u' i st' = (Inl EstadoInvalido, st')"
    if "post_approve c u i st = (Inr v, st')" for v st'
  proof -
    from that have s: "v = preSaveDias c ?w" "st' = reemplazar v st"
      unfolding eq by (simp_all add: save_existente)
    have e: "estado v = Aprobada" "aprobadoPor v = Some (uid u)" "vid v = i"
      using findById_vid [OF assms(3)] by (simp_all add: s(1))
    have f: "findById i st' = Some v"
      unfolding s(2) using assms(3) e(3) by (rule findById_reemplazar)
    with e assms(2) show ?thesis
      by (simp add: post_approve_def)
  qed
  have n: "post_approve c u i st = (Inl ErrorInterno, st)"
    if "\<not> (validar r \<and> solapeModelo r st = None)"
  proof -
    from that a have "save c False ?w st \<noteq> Inr (v, st')" for v st'
      unfolding eq [symmetric] by blast
    then show ?thesis
      using assms(1,3,4) by (cases "save c False ?w st") (auto simp: post_approve_def)
  qed
  from a b n show ?thesis by blast
qed

section \<open>The overlap invariant under the handlers\<close>

text \<open>
  Creating, approving, rejecting and cancelling keep a collection free of conflicts:
  the POST handler refuses a request that overlaps an active record, approving keeps
  the interval and the active status of the record, and rejecting or cancelling makes
  the record inactive.
\<close>

lemma conflicto_sym: "conflicto a b \<longleftrightarrow> conflicto b a"
  by (auto simp: conflicto_def intervalsOverlap_def)

lemma sinSolapes_append:
  "sinSolapes (st @ [v]) \<longleftrightarrow> sinSolapes st \<and> (\<forall>r\<in>set st. \<not> conflicto r v)"
  by (induction st) (auto simp: list_all_iff)

lemma set_reemplazar: "set (reemplazar w st) \<subseteq> insert w (set st)"
  by (induction st) auto

lemma sinSolapes_reemplazar:
  assumes "sinSolapes st" and "findById (vid w) st = Some r"
    and "\<And>x. conflicto w x \<Longrightarrow> conflicto r x"
  shows "sinSolapes (reemplazar w st)"
  using assms(1,2)
proof (induction st)
  case Nil
  then show ?case by simp
next
  case (Cons h rs)
  show ?case
  proof (cases "vid h = vid w")
    case True
    with Cons.prems(2) have "h = r"
      by (simp add: findById_def)
    with True Cons.prems(1) assms(3) show ?thesis
      by (auto simp: list_all_iff)
  next
    case False
    with Cons.prems(2) have f: "findById (vid w) rs = Some r"
      by (simp add: findById_def)
    then have "r \<in> set rs"
      by (simp add: findById_vid)
    with Cons.prems(1) have "\<not> conflicto h r"
      by (auto simp: list_all_iff)
    then have "\<not> conflicto h w"
      using assms(3) [of h] by (auto simp: conflicto_sym)
    moreover have "\<forall>x\<in>set rs. \<not> conflicto h x"
      using Cons.prems(1) by (auto simp: list_all_iff)
    ultimately have "\<forall>x\<in>set (reemplazar w rs). \<not> conflicto h x"
      using set_reemplazar [of w rs] by auto
    with False Cons.IH [OF _ f] Cons.prems(1) show ?thesis
      by (auto simp: list_all_iff)
  qed
qed

lemma post_vacations_sinSolapes:
  assumes "sinSolapes st"
  shows "sinSolapes (snd (post_vacations c u b st))"
proof (cases "post_vacations c u b st")
  case (Pair x st')
  show ?thesis
  proof (cases x)
    case (Inl e)
    with Pair assms show ?thesis
      using post_vacations_Inl [of c u b st e st'] by simp
  next
    case (Inr v)
    with Pair have ok: "post_vacations c u b st = (Inr v, st')" by simp
    from post_vacations_Inr [OF ok] obtain inicio fin v0 where
      s: "solapeRuta (empleadoDe u b) inicio fin st = None"
      and c0: "construir c (nuevoId st) (empleadoDe u b) u b inicio fin = Some v0"
      and s0: "save c True v0 st = Inr (v, st')"
      by blast
    from save_Inr [OF s0] have v: "v = preSaveDias c v0" and st': "st' = st @ [v]"
      by simp_all
    have "empleado v = empleadoDe u b" "fechaInicio v = inicio" "fechaFin v = fin"
      using construir_campos [OF c0] by (simp_all add: v)
    with s have "\<forall>r\<in>set st. \<not> conflicto r v"
      unfolding solapeRuta_None_iff by (auto simp: conflicto_def)
    with assms Pair st' show ?thesis
      by (simp add: sinSolapes_append)
  qed
qed

lemma post_approve_sinSolapes:
  assumes "sinSolapes st"
  shows "sinSolapes (snd (post_approve c u i st))"
proof (cases "\<exists>v st'. post_approve c u i st = (Inr v, st')")
  case True
  then obtain v st' where ok: "post_approve c u i st = (Inr v, st')" by blast
  then obtain r where r: "findById i st = Some r" and p: "estado r = Pendiente"
    by (auto simp: post_approve_def split: if_splits option.splits)
  let ?w = "r\<lparr> estado := Aprobada, aprobadoPor := Some (uid u),
               fechaAprobacion := Some (ahora c), modificadoPor := Some (uid u) \<rparr>"
  from ok r p have "save c False ?w st = Inr (v, st')"
    by (auto simp: post_approve_def save_casos split: if_splits)
  then have s: "v = preSaveDias c ?w" "st' = reemplazar v st"
    by (simp_all add: save_existente)
  have "vid v = i"
    using findById_vid [OF r] by (simp add: s(1))
  moreover have "conflicto v x \<Longrightarrow> conflicto r x" for x
    using p by (simp add: s(1) conflicto_def activa_def)
  ultimately have "sinSolapes (reemplazar v st)"
    using assms r by (auto intro: sinSolapes_reemplazar)
  with ok s show ?thesis by simp
next
  case False
  then have "snd (post_approve c u i st) = st"
    by (auto simp: post_approve_def split: option.splits sum.splits)
  with assms show ?thesis by simp
qed

lemma post_reject_sinSolapes:
  assumes "sinSolapes st"
  shows "sinSolapes (snd (post_reject c u i m st))"
proof (cases "\<exists>v st'. post_reject c u i m st = (Inr v, st')")
  case True
  then obtain v st' where ok: "post_reject c u i m st = (Inr v, st')" by blast
  then obtain r where r: "findById i st = Some r"
    by (auto simp: post_reject_def split: if_splits option.splits)
  let ?w = "r\<lparr> estado := Rechazada, motivoRechazo := map_option trim m,
               aprobadoPor := Some (uid u), fechaAprobacion := Some (ahora c),
               modificadoPor := Some (uid u) \<rparr>"
  from ok r have "save c False ?w st = Inr (v, st')"
    by (auto simp: post_reject_def save_casos split: if_splits)
  then have s: "v = preSaveDias c ?w" "st' = reemplazar v st"
    by (simp_all add: save_existente)
  have "vid v = i"
    using findById_vid [OF r] by (simp add: s(1))
  moreover have "conflicto v x \<Longrightarrow> conflicto r x" for x
    by (simp add: s(1) conflicto_def activa_def)
  ultimately have "sinSolapes (reemplazar v st)"
    using assms r by (auto intro: sinSolapes_reemplazar)
  with ok s show ?thesis by simp
next
  case False
  then have "snd (post_reject c u i m st) = st"
    by (auto simp: post_reject_def split: option.splits sum.splits)
  with assms show ?thesis by simp
qed

lemma post_cancel_sinSolapes:
  assumes "sinSolapes st"
  shows "sinSolapes (snd (post_cancel c u i st))"
proof (cases "\<exists>v st'. post_cancel c u i st = (Inr v, st')")
  case True
  then obtain v st' where ok: "post_cancel c u i st = (Inr v, st')" by blast
  then obtain r where r: "findById i st = Some r"
    by (auto simp: post_cancel_def split: if_splits option.splits)
  let ?w = "r\<lparr> estado := Cancelada, modificadoPor := Some (uid u) \<rparr>"
  from ok r have "save c False ?w st = Inr (v, st')"
    by (auto simp: post_cancel_def save_casos split: if_splits)
  then have s: "v = preSaveDias c ?w" "st' = reemplazar v st"
    by (simp_all add: save_existente)
  have "vid v = i"
    using findById_vid [OF r] by (simp add: s(1))
  moreover have "conflicto v x \<Longrightarrow> conflicto r x" for x
    by (simp add: s(1) conflicto_def activa_def)
  ultimately have "sinSolapes (reemplazar v st)"
    using assms r by (auto intro: sinSolapes_reemplazar)
  with ok s show ?thesis by simp
next
  case False
  then have "snd (post_cancel c u i st) = st"
    by (auto simp: post_cancel_def split: option.splits sum.splits)
  with assms show ?thesis by simp
qed

section \<open>The balance\<close>

text \<open>
  The days used are the sum of \<open>diasHabiles\<close> over the employee's records of the year
  with status approved, in progress or completed; the days available are the constant 22.
\<close>

lemma foldl_sumar:
  "\<forall>v\<in>set vs. diasHabiles v \<noteq> None \<Longrightarrow>
     foldl sumar (Some a) vs = Some (a + sum_list (map (\<lambda>v. the (diasHabiles v)) vs))"
  by (induction vs arbitrary: a) (auto simp: sumar_def)

lemma get_balance_Inr:
  assumes "get_balance c u e y st = Inr b"
  shows "diasDisponibles b = 22"
    and "vacaciones b = filter (\<lambda>v. empleado v = e \<and> anoVacacional v = anio b \<and>
                                  (estado v = Aprobada \<or> estado v = EnCurso \<or> estado v = Completada)) st"
    and "\<forall>v\<in>set st. diasHabiles v \<noteq> None \<Longrightarrow>
           diasUtilizados b = Some (sum_list (map (\<lambda>v. the (diasHabiles v)) (vacaciones b))) \<and>
           diasRestantes b = Some (22 - sum_list (map (\<lambda>v. the (diasHabiles v)) (vacaciones b)))"
  using assms
  by (auto simp: get_balance_def Let_def foldl_sumar split: if_splits)

section \<open>Claims\<close>

text \<open>
  C1. No two active records of an employee overlap after any sequence of operations;
  in particular after a PUT that changes the dates of a pending record. The handlers
  of POST, approve, reject and cancel preserve \<open>sinSolapes\<close> (lemmas above), the PUT
  handler does not: \<open>empleado1\<close> requests 2024-07-10 to 2024-07-20 and 2024-07-22 to
  2024-07-25, the collection is free of conflicts, and a PUT that moves the start of the
  second request to 2024-07-15 is accepted and leaves two pending records that overlap.
\<close>

theorem actualizar_rompe_sin_solapes:
  "snd (post_vacations servidor empleado1 (solicitud (julio2024 22) (julio2024 25))
     (snd (post_vacations servidor empleado1 (solicitud (julio2024 10) (julio2024 20)) [])))
     = [registro 1 10 20 Pendiente 11 8, registro 2 22 25 Pendiente 4 4] \<and>
   sinSolapes [registro 1 10 20 Pendiente 11 8, registro 2 22 25 Pendiente 4 4] \<and>
   put_vacation servidor empleado1 2 (sinCambios\<lparr> p_fechaInicio := Fecha (julio2024 15) \<rparr>)
     [registro 1 10 20 Pendiente 11 8, registro 2 22 25 Pendiente 4 4]
     = (Inr (solapadas ! 1), solapadas) \<and>
   \<not> sinSolapes solapadas"
  by code_simp

text \<open>
  C2. The overlap test of the POST handler is inclusive on both ends. For a request
  that passes the checks made before it (validators, employee and replacement exist,
  end after start), the handler answers \<open>FechasEnConflicto\<close> (409) and leaves the
  collection as it was exactly when some stored record of the same employee with status
  approved, pending or in progress satisfies \<open>aStart \<le> bEnd \<and> bStart \<le> aEnd\<close> against
  the requested interval.
\<close>

theorem crear_solape_inclusivo:
  assumes "validoCrear b" "b_fechaInicio b = Fecha inicio" "b_fechaFin b = Fecha fin"
    and "inicio < fin"
    and "findUser (usuarios c) (empleadoDe u b) \<noteq> None"
    and "\<not> reemplazoFalta c (b_reemplazo b)"
  shows "if (\<exists>r\<in>set st. empleado r = empleadoDe u b \<and> activa r \<and>
                intervalsOverlap (fechaInicio r) (fechaFin r) inicio fin)
         then post_vacations c u b st = (Inl FechasEnConflicto, st)
         else fst (post_vacations c u b st) \<noteq> Inl FechasEnConflicto"
proof (cases "solapeRuta (empleadoDe u b) inicio fin st")
  case None
  then have "fst (post_vacations c u b st) \<noteq> Inl FechasEnConflicto"
    using assms
    by (auto simp: post_vacations_def Let_def split: option.splits sum.splits)
  with None show ?thesis
    using solapeRuta_None_iff [of "empleadoDe u b" inicio fin st] by auto
next
  case (Some r)
  then have "post_vacations c u b st = (Inl FechasEnConflicto, st)"
    using assms by (simp add: post_vacations_def Let_def)
  with Some show ?thesis
    using solapeRuta_None_iff [of "empleadoDe u b" inicio fin st] by auto
qed

text \<open>
  Scenario B: a record for 2024-07-10 to 2024-07-20 is stored and the same employee
  asks for 2024-07-20 to 2024-07-25.
\<close>

theorem crear_solape_inclusivo_witness:
  "post_vacations servidor empleado1 (solicitud (julio2024 20) (julio2024 25))
     [registro 1 10 20 Aprobada 11 8] = (Inl FechasEnConflicto, [registro 1 10 20 Aprobada 11 8])"
proof -
  let ?b = "solicitud (julio2024 20) (julio2024 25)"
  let ?st = "[registro 1 10 20 Aprobada 11 8]"
  have v: "validoCrear ?b" by code_simp
  have i: "b_fechaInicio ?b = Fecha (julio2024 20)" and f: "b_fechaFin ?b = Fecha (julio2024 25)"
    by (simp_all add: solicitud_def)
  have lt: "julio2024 20 < julio2024 25" by code_simp
  have e: "findUser (usuarios servidor) (empleadoDe empleado1 ?b) \<noteq> None" by code_simp
  have r: "\<not> reemplazoFalta servidor (b_reemplazo ?b)" by code_simp
  have ex: "\<exists>r\<in>set ?st. empleado r = empleadoDe empleado1 ?b \<and> activa r \<and>
              intervalsOverlap (fechaInicio r) (fechaFin r) (julio2024 20) (julio2024 25)"
    by code_simp
  from crear_solape_inclusivo [OF v i f lt e r, of ?st] ex show ?thesis
    by (simp only: if_True)
qed

text \<open>
  C3. For every pair of dates with the end strictly after the start, the inclusive
  calendar-day count equals the business-day count plus the number of Saturdays and
  Sundays of the span. On a server in Europe/Madrid, for 2024-10-27 (a Sunday, the day
  summer time ends) to 2024-10-28: \<open>diasTotales\<close> is 2 and the span holds one weekend
  day and one business day, but the first step of the loop of
  \<open>diasHabilesCalculados\<close> lands on 2024-10-28T01:00Z, past the end, and Monday is not
  counted.
\<close>

theorem dias_habiles_cambio_de_hora:
  "diasTotales (diaUTC 20023) (diaUTC 20024) = 2 \<and>
   weekendDaysInSpan (diaUTC 20023) (diaUTC 20024) = 1 \<and>
   businessDaySpan (diaUTC 20023) (diaUTC 20024) = 1 \<and>
   sumarDia madrid (diaUTC 20023) = diaUTC 20024 + 3600000 \<and>
   diasHabilesCalculados madrid (diaUTC 20023) (diaUTC 20024) = 0 \<and>
   diasTotales (diaUTC 20023) (diaUTC 20024) \<noteq>
     diasHabilesCalculados madrid (diaUTC 20023) (diaUTC 20024) +
     weekendDaysInSpan (diaUTC 20023) (diaUTC 20024)"
  by code_simp

text \<open>
  C4. Every POST whose body omits the day counts stores a record with status pending
  and with both counts derived from the dates. \<open>empleado1\<close> posts the request of
  Scenario A with \<^verbatim>\<open>estado: 'aprobada'\<close> added to the body: the handler spreads the body
  into the document and the record is stored as approved, without passing through
  the approve route and its role check.
\<close>

theorem crear_estado_del_cuerpo:
  "b_diasSolicitados ((solicitud (julio2024 15) (julio2024 29))\<lparr>b_estado := Some ''aprobada''\<rparr>) = None \<and>
   b_diasHabiles ((solicitud (julio2024 15) (julio2024 29))\<lparr>b_estado := Some ''aprobada''\<rparr>) = None \<and>
   post_vacations servidor empleado1
     ((solicitud (julio2024 15) (julio2024 29))\<lparr>b_estado := Some ''aprobada''\<rparr>) [] =
     (Inr ((registro 1 15 29 Aprobada 15 11)\<lparr>fechaAprobacion := Some (julio2024 1)\<rparr>),
      [(registro 1 15 29 Aprobada 15 11)\<lparr>fechaAprobacion := Some (julio2024 1)\<rparr>]) \<and>
   estado ((registro 1 15 29 Aprobada 15 11)\<lparr>fechaAprobacion := Some (julio2024 1)\<rparr>) \<noteq> Pendiente"
  by code_simp

text \<open>
  C5. Approving a pending record twice succeeds the first time and fails the second
  time with \<open>EstadoInvalido\<close>. On the collection \<open>solapadas\<close>, which two POSTs and a
  PUT of \<open>empleado1\<close> produce, the second record is pending; approving it is answered
  \<open>ErrorInterno\<close> (500), because the overlap query of \<^verbatim>\<open>pre('save')\<close> finds the first
  record, and so is approving it again.
\<close>

theorem aprobar_pendiente_solapada:
  "put_vacation servidor empleado1 2 (sinCambios\<lparr> p_fechaInicio := Fecha (julio2024 15) \<rparr>)
     (snd (post_vacations servidor empleado1 (solicitud (julio2024 22) (julio2024 25))
        (snd (post_vacations servidor empleado1 (solicitud (julio2024 10) (julio2024 20)) []))))
     = (Inr (solapadas ! 1), solapadas) \<and>
   estado (solapadas ! 1) = Pendiente \<and>
   post_approve servidor rrhh2 2 solapadas = (Inl ErrorInterno, solapadas) \<and>
   post_approve servidor rrhh2 2 (snd (post_approve servidor rrhh2 2 solapadas)) =
     (Inl ErrorInterno, solapadas)"
  by code_simp

text \<open>
  C6. For an approver with the admin or HR role: reject without a \<^verbatim>\<open>motivoRechazo\<close>,
  or with one that is empty after trimming or longer than 500 characters, fails with
  \<open>DatosInvalidos\<close> (400) and the collection, hence the record's status, is unchanged;
  a reject that succeeds was given a pending record and such a reason, and stores
  status rejected, the trimmed reason, \<open>aprobadoPor\<close> = the approver and
  \<open>fechaAprobacion\<close> = the clock's reading; and reject does succeed on a pending
  record that passes the schema's validators.
\<close>

theorem rechazar_requiere_motivo:
  assumes "authorizeRoles [Admin, RRHH] u"
  shows "post_reject c u i None st = (Inl DatosInvalidos, st) \<and>
         (\<not> validoRechazo m \<longrightarrow> post_reject c u i m st = (Inl DatosInvalidos, st)) \<and>
         (\<forall>v st'. post_reject c u i m st = (Inr v, st') \<longrightarrow>
            (\<exists>r s. findById i st = Some r \<and> estado r = Pendiente \<and>
                   m = Some s \<and> trim s \<noteq> [] \<and> length (trim s) \<le> 500 \<and>
                   estado v = Rechazada \<and> motivoRechazo v = Some (trim s) \<and>
                   aprobadoPor v = Some (uid u) \<and> fechaAprobacion v = Some (ahora c) \<and>
                   findById i st' = Some v)) \<and>
         (\<forall>r. findById i st = Some r \<and> estado r = Pendiente \<and> validoRechazo m \<and> validar r \<longrightarrow>
            (\<exists>v st'. post_reject c u i m st = (Inr v, st')))"
proof -
  have a: "post_reject c u i None st = (Inl DatosInvalidos, st)"
    using assms by (simp add: post_reject_def validoRechazo_def)
  have b: "post_reject c u i m st = (Inl DatosInvalidos, st)" if "\<not> validoRechazo m"
    using assms that by (simp add: post_reject_def)
  have c: "\<exists>r s. findById i st = Some r \<and> estado r = Pendiente \<and>
              m = Some s \<and> trim s \<noteq> [] \<and> length (trim s) \<le> 500 \<and>
              estado v = Rechazada \<and> motivoRechazo v = Some (trim s) \<and>
              aprobadoPor v = Some (uid u) \<and> fechaAprobacion v = Some (ahora c) \<and>
              findById i st' = Some v"
    if ok: "post_reject c u i m st = (Inr v, st')" for v st'
  proof -
    from ok obtain s where m: "m = Some s" and t: "trim s \<noteq> []" "length (trim s) \<le> 500"
      using assms by (cases m) (auto simp: post_reject_def validoRechazo_def split: if_splits)
    from ok obtain r where r: "findById i st = Some r" and p: "estado r = Pendiente"
      using assms by (auto simp: post_reject_def split: if_splits option.splits)
    let ?w = "r\<lparr> estado := Rechazada, motivoRechazo := map_option trim m,
                 aprobadoPor := Some (uid u), fechaAprobacion := Some (ahora c),
                 modificadoPor := Some (uid u) \<rparr>"
    from ok have "save c False ?w st = Inr (v, st')"
      using assms r p m t by (simp add: post_reject_def validoRechazo_def save_casos)
    then have s: "v = preSaveDias c ?w" "st' = reemplazar v st"
      by (simp_all add: save_existente)
    have e: "estado v = Rechazada" "motivoRechazo v = Some (trim s)" "aprobadoPor v = Some (uid u)"
      "vid v = i"
      using findById_vid [OF r] m by (simp_all add: s(1))
    have fa: "fechaAprobacion v = Some (ahora c)"
      by (simp add: s(1) preSaveDias_def Let_def)
    have "findById i st' = Some v"
      unfolding s(2) using r e(4) by (rule findById_reemplazar)
    with r p m t e fa show ?thesis
      by blast
  qed
  have d: "\<exists>v st'. post_reject c u i m st = (Inr v, st')"
    if h: "findById i st = Some r \<and> estado r = Pendiente \<and> validoRechazo m \<and> validar r" for r
  proof -
    let ?w = "r\<lparr> estado := Rechazada, motivoRechazo := map_option trim m,
                 aprobadoPor := Some (uid u), fechaAprobacion := Some (ahora c),
                 modificadoPor := Some (uid u) \<rparr>"
    from h have "validar ?w"
      by (auto simp: validar_def validoRechazo_def largoMax_def split: option.splits)
    then have "save c False ?w st = Inr (preSaveDias c ?w, reemplazar (preSaveDias c ?w) st)"
      by (simp add: save_existente)
    then show ?thesis
      using assms h by (simp add: post_reject_def)
  qed
  from a b c d show ?thesis by blast
qed

text \<open>Scenario C, and a reject with a reason, of a pending request by the HR user.\<close>

theorem rechazar_requiere_motivo_witness:
  "post_reject servidor rrhh2 1 None [registro 1 10 20 Pendiente 11 8] =
     (Inl DatosInvalidos, [registro 1 10 20 Pendiente 11 8]) \<and>
   post_reject servidor rrhh2 1 (Some ''Conflicto con fechas del proyecto'')
     [registro 1 10 20 Pendiente 11 8] =
     (Inr ((registro 1 10 20 Rechazada 11 8)\<lparr> aprobadoPor := Some 2,
             fechaAprobacion := Some (julio2024 1),
             motivoRechazo := Some ''Conflicto con fechas del proyecto'',
             modificadoPor := Some 2 \<rparr>),
      [(registro 1 10 20 Rechazada 11 8)\<lparr> aprobadoPor := Some 2,
             fechaAprobacion := Some (julio2024 1),
             motivoRechazo := Some ''Conflicto con fechas del proyecto'',
             modificadoPor := Some 2 \<rparr>]) \<and>
   findById 1 [(registro 1 10 20 Rechazada 11 8)\<lparr> aprobadoPor := Some 2,
             fechaAprobacion := Some (julio2024 1),
             motivoRechazo := Some ''Conflicto con fechas del proyecto'',
             modificadoPor := Some 2 \<rparr>] =
     Some ((registro 1 10 20 Rechazada 11 8)\<lparr> aprobadoPor := Some 2,
             fechaAprobacion := Some (julio2024 1),
             motivoRechazo := Some ''Conflicto con fechas del proyecto'',
             modificadoPor := Some 2 \<rparr>)"
proof -
  let ?A = "registro 1 10 20 Pendiente 11 8"
  let ?m = "Some ''Conflicto con fechas del proyecto''"
  let ?R = "(registro 1 10 20 Rechazada 11 8)\<lparr> aprobadoPor := Some 2,
             fechaAprobacion := Some (julio2024 1),
             motivoRechazo := Some ''Conflicto con fechas del proyecto'',
             modificadoPor := Some 2 \<rparr>"
  have run: "post_reject servidor rrhh2 1 ?m [?A] = (Inr ?R, [?R])"
    by code_simp
  have a: "authorizeRoles [Admin, RRHH] rrhh2"
    by code_simp
  note t = rechazar_requiere_motivo [OF a, of servidor 1 "[?A]" ?m]
  from t have "post_reject servidor rrhh2 1 None [?A] = (Inl DatosInvalidos, [?A])"
    by blast
  moreover from t run have "findById 1 [?R] = Some ?R"
    by blast
  ultimately show ?thesis
    using run by blast
qed

text \<open>
  C7. For a stored record: a requester with the employee role who does not own it is
  answered \<open>AccesoDenegado\<close> (403); any other requester is answered \<open>EstadoInvalido\<close>
  (400) when the status is neither pending nor approved; a cancel that succeeds was
  asked on a pending or approved record by its owner or by an admin or HR user, and
  stores status cancelled; and cancel does succeed under these conditions on a record
  that passes the schema's validators.
\<close>

theorem cancelar_condiciones:
  assumes "findById i st = Some r"
  shows "(role u = Empleado \<and> empleado r \<noteq> uid u \<longrightarrow> post_cancel c u i st = (Inl AccesoDenegado, st)) \<and>
         (\<not> (role u = Empleado \<and> empleado r \<noteq> uid u) \<and> estado r \<noteq> Pendiente \<and> estado r \<noteq> Aprobada
            \<longrightarrow> post_cancel c u i st = (Inl EstadoInvalido, st)) \<and>
         (\<forall>v st'. post_cancel c u i st = (Inr v, st') \<longrightarrow>
            (estado r = Pendiente \<or> estado r = Aprobada) \<and>
            (empleado r = uid u \<or> role u = Admin \<or> role u = RRHH) \<and>
            estado v = Cancelada \<and> findById i st' = Some v) \<and>
         ((estado r = Pendiente \<or> estado r = Aprobada) \<and>
          (empleado r = uid u \<or> role u = Admin \<or> role u = RRHH) \<and> validar r
            \<longrightarrow> (\<exists>v st'. post_cancel c u i st = (Inr v, st')))"
proof -
  let ?w = "r\<lparr> estado := Cancelada, modificadoPor := Some (uid u) \<rparr>"
  have a: "post_cancel c u i st = (Inl AccesoDenegado, st)"
    if "role u = Empleado \<and> empleado r \<noteq> uid u"
    using assms that by (simp add: post_cancel_def)
  have b: "post_cancel c u i st = (Inl EstadoInvalido, st)"
    if "\<not> (role u = Empleado \<and> empleado r \<noteq> uid u) \<and> estado r \<noteq> Pendiente \<and> estado r \<noteq> Aprobada"
    using assms that by (auto simp: post_cancel_def)
  have c: "(estado r = Pendiente \<or> estado r = Aprobada) \<and>
           (empleado r = uid u \<or> role u = Admin \<or> role u = RRHH) \<and>
           estado v = Cancelada \<and> findById i st' = Some v"
    if ok: "post_cancel c u i st = (Inr v, st')" for v st'
  proof -
    from ok have g: "\<not> (role u = Empleado \<and> empleado r \<noteq> uid u)"
      "estado r = Pendiente \<or> estado r = Aprobada"
      using assms by (auto simp: post_cancel_def split: if_splits)
    with ok have "save c False ?w st = Inr (v, st')"
      using assms by (auto simp: post_cancel_def save_casos split: if_splits)
    then have s: "v = preSaveDias c ?w" "st' = reemplazar v st"
      by (simp_all add: save_existente)
    have e: "estado v = Cancelada" "vid v = i"
      using findById_vid [OF assms] by (simp_all add: s(1))
    have "findById i st' = Some v"
      unfolding s(2) using assms e(2) by (rule findById_reemplazar)
    moreover have "empleado r = uid u \<or> role u = Admin \<or> role u = RRHH"
      using g(1) by (cases "role u") auto
    ultimately show ?thesis
      using g(2) e(1) by blast
  qed
  have d: "\<exists>v st'. post_cancel c u i st = (Inr v, st')"
    if h: "(estado r = Pendiente \<or> estado r = Aprobada) \<and>
           (empleado r = uid u \<or> role u = Admin \<or> role u = RRHH) \<and> validar r"
  proof -
    from h have "save c False ?w st = Inr (preSaveDias c ?w, reemplazar (preSaveDias c ?w) st)"
      by (simp add: save_existente)
    then show ?thesis
      using assms h by (auto simp: post_cancel_def)
  qed
  from a b c d show ?thesis by blast
qed

text \<open>
  Scenario D (the owner cancels a rejected request), another employee cancelling a
  pending request, and the owner cancelling an approved one.
\<close>

theorem cancelar_condiciones_witness:
  "post_cancel servidor empleado1 1 [registro 1 10 20 Rechazada 11 8] =
     (Inl EstadoInvalido, [registro 1 10 20 Rechazada 11 8]) \<and>
   post_cancel servidor empleado3 1 [registro 1 10 20 Pendiente 11 8] =
     (Inl AccesoDenegado, [registro 1 10 20 Pendiente 11 8]) \<and>
   post_cancel servidor empleado1 1 [registro 1 10 20 Aprobada 11 8] =
     (Inr ((registro 1 10 20 Cancelada 11 8)\<lparr> modificadoPor := Some 1 \<rparr>),
      [(registro 1 10 20 Cancelada 11 8)\<lparr> modificadoPor := Some 1 \<rparr>]) \<and>
   findById 1 [(registro 1 10 20 Cancelada 11 8)\<lparr> modificadoPor := Some 1 \<rparr>] =
     Some ((registro 1 10 20 Cancelada 11 8)\<lparr> modificadoPor := Some 1 \<rparr>)"
proof -
  let ?R = "registro 1 10 20 Rechazada 11 8"
  let ?P = "registro 1 10 20 Pendiente 11 8"
  let ?A = "registro 1 10 20 Aprobada 11 8"
  let ?C = "(registro 1 10 20 Cancelada 11 8)\<lparr> modificadoPor := Some 1 \<rparr>"
  have fR: "findById 1 [?R] = Some ?R" and fP: "findById 1 [?P] = Some ?P"
    and fA: "findById 1 [?A] = Some ?A"
    by code_simp+
  have hR: "\<not> (role empleado1 = Empleado \<and> empleado ?R \<noteq> uid empleado1) \<and>
            estado ?R \<noteq> Pendiente \<and> estado ?R \<noteq> Aprobada"
    by code_simp
  have hP: "role empleado3 = Empleado \<and> empleado ?P \<noteq> uid empleado3"
    by code_simp
  have run: "post_cancel servidor empleado1 1 [?A] = (Inr ?C, [?C])"
    by code_simp
  from cancelar_condiciones [OF fR, of empleado1 servidor] hR
  have 1: "post_cancel servidor empleado1 1 [?R] = (Inl EstadoInvalido, [?R])"
    by blast
  from cancelar_condiciones [OF fP, of empleado3 servidor] hP
  have 2: "post_cancel servidor empleado3 1 [?P] = (Inl AccesoDenegado, [?P])"
    by blast
  from cancelar_condiciones [OF fA, of empleado1 servidor] run
  have 3: "findById 1 [?C] = Some ?C"
    by blast
  from 1 2 3 run show ?thesis
    by blast
qed

text \<open>
  C8. The balance takes the allocated days from the employee's contract. Here the
  contract of employee 1 grants 30 days and one approved record of 2024 uses 11
  business days: the handler answers 22 allocated days and 11 remaining.
\<close>

theorem balance_dias_disponibles_fijos:
  "map diasVacaciones (filter (\<lambda>k. c_empleado k = 1) (contratos servidor)) = [30] \<and>
   get_balance servidor empleado1 1 (Some 2024) [registro 1 15 29 Aprobada 15 11] =
     Inr \<lparr> anio = 2024, diasDisponibles = 22, diasUtilizados = Some 11,
           diasRestantes = Some 11, vacaciones = [registro 1 15 29 Aprobada 15 11] \<rparr>"
  by code_simp

text \<open>
  C9 (as amended). For every POST whose body carries no \<^verbatim>\<open>anoVacacional\<close>, the
  stored record's \<open>anoVacacional\<close> is the calendar year, in the server's zone, of the
  moment of creation (the default of the schema is \<^verbatim>\<open>new Date().getFullYear()\<close>).
\<close>

theorem crear_ano_vacacional:
  assumes "post_vacations c u b st = (Inr v, st')" and "b_anoVacacional b = None"
  shows "anoVacacional v = getFullYear (zona c) (ahora c)"
proof -
  from post_vacations_Inr [OF assms(1)] obtain inicio fin v0 where
    c0: "construir c (nuevoId st) (empleadoDe u b) u b inicio fin = Some v0"
    and s0: "save c True v0 st = Inr (v, st')"
    by blast
  from save_Inr [OF s0] have "v = preSaveDias c v0" by simp
  then show ?thesis
    using construir_campos(8) [OF c0] assms(2) by simp
qed

text \<open>The request of Scenario A, created on 2024-07-01.\<close>

theorem crear_ano_vacacional_witness:
  "post_vacations servidor empleado1 (solicitud (julio2024 15) (julio2024 29)) [] =
     (Inr (registro 1 15 29 Pendiente 15 11), [registro 1 15 29 Pendiente 15 11]) \<and>
   getFullYear (zona servidor) (ahora servidor) = 2024"
proof -
  let ?b = "solicitud (julio2024 15) (julio2024 29)"
  let ?R = "registro 1 15 29 Pendiente 15 11"
  have run: "post_vacations servidor empleado1 ?b [] = (Inr ?R, [?R])"
    by code_simp
  have h: "b_anoVacacional ?b = None"
    by (simp add: solicitud_def)
  have f: "anoVacacional ?R = 2024"
    by (simp add: registro_def)
  from crear_ano_vacacional [OF run h] run show ?thesis
    unfolding f by simp
qed

text \<open>
  C9 as stated fails for a request made on 2024-12-01 (day 20058) for 2025-01-05 to
  2025-01-10 (days 20093 to 20098): the record's year is 2024, the year of its start
  date is 2025.
\<close>

theorem crear_ano_vacacional_counterexample:
  "b_anoVacacional (solicitud (diaUTC 20093) (diaUTC 20098)) = None \<and>
   post_vacations (servidor\<lparr>ahora := diaUTC 20058\<rparr>) empleado1
     (solicitud (diaUTC 20093) (diaUTC 20098)) [] =
     (Inr ((registro 1 0 0 Pendiente 6 5)\<lparr>fechaInicio := diaUTC 20093, fechaFin := diaUTC 20098\<rparr>),
      [(registro 1 0 0 Pendiente 6 5)\<lparr>fechaInicio := diaUTC 20093, fechaFin := diaUTC 20098\<rparr>]) \<and>
   anoVacacional ((registro 1 0 0 Pendiente 6 5)\<lparr>fechaInicio := diaUTC 20093, fechaFin := diaUTC 20098\<rparr>) = 2024 \<and>
   getFullYear (Zona 0 []) (fechaInicio ((registro 1 0 0 Pendiente 6 5)\<lparr>fechaInicio := diaUTC 20093, fechaFin := diaUTC 20098\<rparr>)) = 2025"
  by code_simp

text \<open>
  C10. A POST whose start date is strictly before the clock's reading is answered with
  an error and the collection is unchanged; when every check the handler makes before
  saving passes, the error is \<open>ErrorInterno\<close> (500), raised by the past-date guard of
  the second \<^verbatim>\<open>pre('save')\<close> middleware.
\<close>

theorem crear_fecha_pasada:
  assumes "b_fechaInicio b = Fecha inicio" "inicio < ahora c"
  shows "(\<exists>e. post_vacations c u b st = (Inl e, st)) \<and>
         (validoCrear b \<and> findUser (usuarios c) (empleadoDe u b) \<noteq> None \<and>
          \<not> reemplazoFalta c (b_reemplazo b) \<and>
          (\<exists>fin. b_fechaFin b = Fecha fin \<and> inicio < fin \<and>
                 solapeRuta (empleadoDe u b) inicio fin st = None)
          \<longrightarrow> post_vacations c u b st = (Inl ErrorInterno, st))"
proof -
  have no: "post_vacations c u b st \<noteq> (Inr v, st')" for v st'
  proof
    assume "post_vacations c u b st = (Inr v, st')"
    from post_vacations_Inr [OF this] obtain fin v0 where
      c0: "construir c (nuevoId st) (empleadoDe u b) u b inicio fin = Some v0"
      and s0: "save c True v0 st = Inr (v, st')"
      using assms(1) by auto
    from c0 have "fechaInicio v0 = inicio"
      by (auto simp: construir_def split: option.splits)
    with s0 assms(2) show False
      by (auto simp: save_def Let_def preSaveValidaciones_def split: if_splits option.splits)
  qed
  have a: "\<exists>e. post_vacations c u b st = (Inl e, st)"
  proof (cases "post_vacations c u b st")
    case (Pair x st')
    then show ?thesis
      using no post_vacations_Inl [of c u b st _ st'] by (cases x) auto
  qed
  moreover have "post_vacations c u b st = (Inl ErrorInterno, st)"
    if "validoCrear b" "findUser (usuarios c) (empleadoDe u b) \<noteq> None"
       "\<not> reemplazoFalta c (b_reemplazo b)" "b_fechaFin b = Fecha fin" "inicio < fin"
       "solapeRuta (empleadoDe u b) inicio fin st = None" for fin
  proof -
    from a obtain e where e: "post_vacations c u b st = (Inl e, st)" ..
    have "post_vacations c u b st =
            (case construir c (nuevoId st) (empleadoDe u b) u b inicio fin of
               None \<Rightarrow> (Inl ErrorInterno, st)
             | Some vacation \<Rightarrow>
                 (case save c True vacation st of
                    Inl e \<Rightarrow> (Inl ErrorInterno, st)
                  | Inr (v, st') \<Rightarrow> (Inr v, st')))"
      using that assms(1) by (auto simp: post_vacations_def Let_def)
    with e show ?thesis
      by (auto split: option.splits sum.splits)
  qed
  ultimately show ?thesis by blast
qed

text \<open>A request for 2024-07-15 to 2024-07-29 received on 2024-07-16.\<close>

theorem crear_fecha_pasada_witness:
  "julio2024 15 < ahora (servidor\<lparr>ahora := julio2024 16\<rparr>) \<and>
   post_vacations (servidor\<lparr>ahora := julio2024 16\<rparr>) empleado1
     (solicitud (julio2024 15) (julio2024 29)) [] = (Inl ErrorInterno, [])"
proof -
  let ?c = "servidor\<lparr>ahora := julio2024 16\<rparr>"
  let ?b = "solicitud (julio2024 15) (julio2024 29)"
  have i: "b_fechaInicio ?b = Fecha (julio2024 15)" by (simp add: solicitud_def)
  have lt: "julio2024 15 < ahora ?c" by code_simp
  have "b_fechaFin ?b = Fecha (julio2024 29) \<and> julio2024 15 < julio2024 29 \<and>
        solapeRuta (empleadoDe empleado1 ?b) (julio2024 15) (julio2024 29) [] = None"
    by code_simp
  moreover have "validoCrear ?b \<and> findUser (usuarios ?c) (empleadoDe empleado1 ?b) \<noteq> None \<and>
        \<not> reemplazoFalta ?c (b_reemplazo ?b)"
    by code_simp
  ultimately show ?thesis
    using crear_fecha_pasada [OF i lt, of empleado1 "[]"] lt by blast
qed

end
